theory Spec2Isabelle
  imports Complex_Main "HOL-Library.Word" "HOL-Library.AList" "HOL-Library.Signed_Division"
begin

section \<open>Data model\<close>

text \<open>
  \<^verbatim>\<open>Uint256\<close> is a 32-byte array, read here as a 256-bit word; only equality is ever
  used on it. \<^verbatim>\<open>Uint168\<close> is a 21-byte array whose byte 0 is the address-kind prefix:
  it is kept as that byte together with the remaining 20 bytes. \<^verbatim>\<open>Fixed64\<close> is Go's
  \<^verbatim>\<open>int64\<close>: addition and subtraction wrap, comparisons read the word with \<open>sint\<close>.
  Go's \<^verbatim>\<open>int\<close> is taken at its 64-bit width. \<^verbatim>\<open>big.Int\<close> is \<open>int\<close>.
\<close>

type_synonym uint256 = "256 word"
type_synonym uint168 = "8 word \<times> 160 word"
type_synonym fixed64 = "64 word"
type_synonym bytes = "8 word list"

definition EmptyHash :: uint256 where
  "EmptyHash = 0"

definition EmptyUint168 :: uint168 where
  "EmptyUint168 = (0, 0)"

text \<open>Errors of the Go code are values; a run-time panic (index out of range, failed type
  assertion, division by zero) is the error \<open>Panic\<close>.\<close>

datatype error = Err string | Panic

type_synonym 'a result = "error + 'a"

datatype ErrCode =
    Success
  | ErrTransactionSize
  | ErrInvalidInput
  | ErrInvalidOutput
  | ErrAssetPrecision
  | ErrAttributeProgram
  | ErrTransactionPayload
  | ErrTxHashDuplicate
  | ErrTransactionSignature
  | ErrRechargeToSideChain
  | ErrDoubleSpend
  | ErrUTXOLocked
  | ErrTransactionBalance
  | ErrUnknownReferedTxn
  | ErrInvalidReferedTxn
  | ErrIneffectiveCoinbase

record OutPoint =
  TxID :: uint256
  Index :: "16 word"

record Input =
  Previous :: OutPoint
  Sequence :: "32 word"

record Output =
  AssetID :: uint256
  Value :: fixed64
  TokenValue :: int
  OutputLock :: "32 word"
  ProgramHash :: uint168

record Asset =
  Name :: string
  Precision :: "8 word"

record Attribute =
  Usage :: "8 word"

text \<open>A program's code and parameter are byte slices that may be \<^verbatim>\<open>nil\<close>.\<close>

record Program =
  Code :: "bytes option"
  Parameter :: "bytes option"

datatype TxType =
    CoinBase
  | RegisterAsset
  | TransferAsset
  | Record
  | RechargeToSideChain
  | TransferCrossChainAsset
  | RegisterIdentification
  | OtherTxType "8 word"

text \<open>The payload is an interface value; the validator inspects it by type switch and type
  assertion. \<open>PayloadUnknown\<close> stands for any other dynamic type, \<^verbatim>\<open>nil\<close> included.\<close>

datatype Payload =
    PayloadCoinBase
  | PayloadRegisterAsset Asset fixed64 uint168
  | PayloadTransferAsset
  | PayloadRecord
  | PayloadRechargeToSideChain bytes bytes
  | PayloadTransferCrossChainAsset "string list" "64 word list" "fixed64 list"
  | PayloadRegisterIdentification
  | PayloadUnknown

record Transaction =
  TxType :: TxType
  Payload :: Payload
  Attributes :: "Attribute list"
  Inputs :: "Input list"
  Outputs :: "Output list"
  LockTime :: "32 word"
  Programs :: "Program list"

text \<open>The main-chain transaction embedded in a recharge payload (package \<^verbatim>\<open>ela\<close>): only
  its outputs and its payload are read.\<close>

record ElaOutput =
  ela_ProgramHash :: uint168
  ela_Value :: fixed64

datatype ElaPayload =
    ElaPayloadTransferCrossChainAsset "string list" "64 word list" "fixed64 list"
  | ElaPayloadOther

record ElaTransaction =
  ela_Hash :: uint256
  ela_Outputs :: "ElaOutput list"
  ela_Payload :: ElaPayload

text \<open>Modelled from the spec: the kind tests of package \<^verbatim>\<open>core\<close> are not among the
  sources. By the spec a transaction's payload variant matches its declared kind; the kind
  of a transaction is its \<^verbatim>\<open>TxType\<close>.\<close>

definition IsCoinBaseTx :: "Transaction \<Rightarrow> bool" where
  "IsCoinBaseTx txn \<longleftrightarrow> TxType txn = CoinBase"

text \<open>Modelled from the spec: as \<open>IsCoinBaseTx\<close>, for the recharge-to-side-chain kind.\<close>

definition IsRechargeToSideChainTx :: "Transaction \<Rightarrow> bool" where
  "IsRechargeToSideChainTx txn \<longleftrightarrow> TxType txn = RechargeToSideChain"

text \<open>Modelled from the spec: as \<open>IsCoinBaseTx\<close>, for the transfer-cross-chain-asset
  kind.\<close>

definition IsTransferCrossChainAssetTx :: "Transaction \<Rightarrow> bool" where
  "IsTransferCrossChainAssetTx txn \<longleftrightarrow> TxType txn = TransferCrossChainAsset"

text \<open>Modelled from the spec: as \<open>IsCoinBaseTx\<close>, for the register-asset kind.\<close>

definition IsRegisterAssetTx :: "Transaction \<Rightarrow> bool" where
  "IsRegisterAssetTx txn \<longleftrightarrow> TxType txn = RegisterAsset"

text \<open>Indexing a slice panics out of range.\<close>

definition index :: "'a list \<Rightarrow> nat \<Rightarrow> 'a result" where
  "index xs i = (if i < length xs then Inr (xs ! i) else Inl Panic)"

subsection \<open>Collaborators\<close>

text \<open>
  \<^verbatim>\<open>config.Parameters\<close>. The exchange rate is a \<^verbatim>\<open>float64\<close>; its sign is all the
  validator tests directly, so it is a rational here, and the floating-point products the
  code forms are the functions \<open>mulExchangeRate\<close> (for
  \<^verbatim>\<open>Fixed64(float64(x) * ExchangeRate)\<close>) and \<open>mulFoundationShare\<close> (for
  \<^verbatim>\<open>Fixed64(float64(x) * 0.3)\<close>) of the library record below.
\<close>

record Parameters =
  MaxBlockSize :: "64 word"
  MinTxFee :: "64 word"
  MinCrossChainTxFee :: "64 word"
  ExchangeRate :: rat
  SpendCoinbaseSpan :: "32 word"
  FoundationAddress :: uint168
  MinPrecision :: "8 word"
  MaxPrecision :: "8 word"

text \<open>Functions of other packages that the code calls and that do not read the ledger.
  \<open>pow10Overflow\<close> is the implementation-dependent result of converting
  \<^verbatim>\<open>math.Pow10(n)\<close> to \<^verbatim>\<open>int64\<close> when \<open>n > 18\<close>; the four prefixes are the
  address-kind constants of the utility package.\<close>

record Library =
  Hash :: "Transaction \<Rightarrow> uint256"
  GetSize :: "Transaction \<Rightarrow> 64 word"
  AssetHash :: "Asset \<Rightarrow> uint256"
  IsValidAttributeType :: "8 word \<Rightarrow> bool"
  ToProgramHash :: "bytes \<Rightarrow> uint168 result"
  Uint168FromAddress :: "string \<Rightarrow> uint168 result"
  ToAddress :: "uint168 \<Rightarrow> string result"
  GetGenesisProgramHash :: "uint256 \<Rightarrow> uint168 result"
  DeserializeMerkleProof :: "bytes \<Rightarrow> unit result"
  DeserializeElaTransaction :: "bytes \<Rightarrow> ElaTransaction result"
  DeserializeTransaction :: "bytes \<Rightarrow> Transaction result"
  mulExchangeRate :: "fixed64 \<Rightarrow> fixed64"
  mulFoundationShare :: "fixed64 \<Rightarrow> fixed64"
  pow10Overflow :: fixed64
  PrefixStandard :: "8 word"
  PrefixMultisig :: "8 word"
  PrefixCrossChain :: "8 word"
  PrefixRegisterId :: "8 word"

text \<open>\<^verbatim>\<open>DefaultLedger\<close>: the chain store and the blockchain object, as the functions the
  validator calls on them. \<^verbatim>\<open>GetTxReference\<close> returns a Go map from input pointers to the
  outputs they spend; it is a list of pairs, one per input, in the order the map is
  ranged over.\<close>

record Ledger =
  Blockchain_AssetID :: uint256
  IsTxHashDuplicate :: "uint256 \<Rightarrow> bool"
  IsMainchainTxHashDuplicate :: "uint256 \<Rightarrow> bool"
  GetTxReference :: "Transaction \<Rightarrow> (Input \<times> Output) list result"
  GetTransaction :: "uint256 \<Rightarrow> (Transaction \<times> 32 word) result"
  GetHeight :: "32 word"
  GetBlockHash :: "32 word \<Rightarrow> uint256"
  GetAssets :: "Asset list"
  GetAsset :: "uint256 \<Rightarrow> Asset result"
  IsDoubleSpend :: "Transaction \<Rightarrow> bool"
  VerifySignature :: "Transaction \<Rightarrow> unit result"

section \<open>Fee helper\<close>

text \<open>Go maps from asset id to \<^verbatim>\<open>Fixed64\<close> are association lists with distinct keys,
  read with \<open>map_of\<close> and written with \<open>AList.update\<close>.\<close>

type_synonym feemap = "(uint256 \<times> fixed64) list"

text \<open>The two accumulation loops of \<^verbatim>\<open>GetTxFeeMap\<close> (lines 73-80 and 82-89).\<close>

fun sumByAsset :: "Output list \<Rightarrow> feemap \<Rightarrow> feemap" where
  "sumByAsset [] m = m"
| "sumByAsset (v # vs) m =
     sumByAsset vs
       (case map_of m (AssetID v) of
          Some amout \<Rightarrow> AList.update (AssetID v) (amout + Value v) m
        | None \<Rightarrow> AList.update (AssetID v) (Value v) m)"

text \<open>A read of a missing key yields the zero value.\<close>

definition get0 :: "feemap \<Rightarrow> uint256 \<Rightarrow> fixed64" where
  "get0 m k = (case map_of m k of Some x \<Rightarrow> x | None \<Rightarrow> 0)"

text \<open>Lines 92-98: the range over \<^verbatim>\<open>outputs\<close>.\<close>

fun balanceOutputs :: "feemap \<Rightarrow> feemap \<Rightarrow> feemap \<Rightarrow> feemap" where
  "balanceOutputs inputs [] feeMap = feeMap"
| "balanceOutputs inputs ((outputAssetid, outputValue) # rest) feeMap =
     balanceOutputs inputs rest
       (case map_of inputs outputAssetid of
          Some inputValue \<Rightarrow> AList.update outputAssetid (inputValue - outputValue) feeMap
        | None \<Rightarrow> AList.update outputAssetid (get0 feeMap outputAssetid - outputValue) feeMap)"

text \<open>Lines 99-103: the range over \<^verbatim>\<open>inputs\<close>.\<close>

fun balanceInputs :: "feemap \<Rightarrow> feemap \<Rightarrow> feemap" where
  "balanceInputs [] feeMap = feeMap"
| "balanceInputs ((inputAssetid, inputValue) # rest) feeMap =
     balanceInputs rest
       (case map_of feeMap inputAssetid of
          Some _ \<Rightarrow> feeMap
        | None \<Rightarrow> AList.update inputAssetid (get0 feeMap inputAssetid + inputValue) feeMap)"

text \<open>Lines 44-61: the recharge case, inner loop over the payload's addresses.\<close>

fun rechargeInner ::
  "Library \<Rightarrow> Transaction \<Rightarrow> string list \<Rightarrow> 64 word list \<Rightarrow> Output \<Rightarrow> nat \<Rightarrow> nat
     \<Rightarrow> feemap \<Rightarrow> feemap result" where
  "rechargeInner lib mc addrs idxs v i 0 feeMap = Inr feeMap"
| "rechargeInner lib mc addrs idxs v i (Suc n) feeMap =
     (case ToAddress lib (ProgramHash v) of
        Inl e \<Rightarrow> Inl e
      | Inr targetAddress \<Rightarrow>
          if targetAddress = addrs ! i then
            (case index idxs i of
               Inl e \<Rightarrow> Inl e
             | Inr oi \<Rightarrow>
                 (case index (Outputs mc) (unat oi) of
                    Inl e \<Rightarrow> Inl e
                  | Inr mcOut \<Rightarrow>
                      rechargeInner lib mc addrs idxs v (Suc i) n
                        (case map_of feeMap (AssetID v) of
                           Some amount \<Rightarrow>
                             AList.update (AssetID v)
                               (amount + mulExchangeRate lib (Value mcOut) - Value v) feeMap
                         | None \<Rightarrow>
                             AList.update (AssetID v)
                               (mulExchangeRate lib (Value mcOut) - Value v) feeMap)))
          else rechargeInner lib mc addrs idxs v (Suc i) n feeMap)"

fun rechargeOuter ::
  "Library \<Rightarrow> Transaction \<Rightarrow> string list \<Rightarrow> 64 word list \<Rightarrow> Output list
     \<Rightarrow> feemap \<Rightarrow> feemap result" where
  "rechargeOuter lib mc addrs idxs [] feeMap = Inr feeMap"
| "rechargeOuter lib mc addrs idxs (v # vs) feeMap =
     (case rechargeInner lib mc addrs idxs v 0 (length addrs) feeMap of
        Inl e \<Rightarrow> Inl e
      | Inr feeMap' \<Rightarrow> rechargeOuter lib mc addrs idxs vs feeMap')"

text \<open>\<^verbatim>\<open>GetTxFeeMap\<close>. The helper's store \<^verbatim>\<open>h.db\<close> is the ledger.\<close>

definition GetTxFeeMap :: "Library \<Rightarrow> Ledger \<Rightarrow> Transaction \<Rightarrow> feemap result" where
  "GetTxFeeMap lib db tx =
     (if IsRechargeToSideChainTx tx then
        (case Payload tx of
           PayloadRechargeToSideChain proof mainChainTransaction \<Rightarrow>
             (case DeserializeTransaction lib mainChainTransaction of
                Inl Panic \<Rightarrow> Inl Panic
              | Inl (Err _) \<Rightarrow> Inl (Err ''GetTxFeeMap mainChainTransaction deserialize failed'')
              | Inr mc \<Rightarrow>
                  (case Payload mc of
                     PayloadTransferCrossChainAsset addrs idxs amounts \<Rightarrow>
                       rechargeOuter lib mc addrs idxs (Outputs tx) []
                   | _ \<Rightarrow> Inl Panic))
         | _ \<Rightarrow> Inl Panic)
      else
        (case GetTxReference db tx of
           Inl e \<Rightarrow> Inl e
         | Inr reference \<Rightarrow>
             let inputs = sumByAsset (map snd reference) [];
                 outputs = sumByAsset (Outputs tx) []
             in Inr (balanceInputs inputs (balanceOutputs inputs outputs []))))"

text \<open>\<^verbatim>\<open>GetTxFee\<close>.\<close>

definition GetTxFee :: "Library \<Rightarrow> Ledger \<Rightarrow> Transaction \<Rightarrow> uint256 \<Rightarrow> fixed64" where
  "GetTxFee lib db tx assetId =
     (case GetTxFeeMap lib db tx of Inl _ \<Rightarrow> 0 | Inr feeMap \<Rightarrow> get0 feeMap assetId)"

section \<open>Transaction validator\<close>

text \<open>A check returns \<^verbatim>\<open>nil\<close> (\<open>Inr ()\<close>) or an error. \<open>orErr r msg k\<close> is the idiom
  \<^verbatim>\<open>x, err := f(); if err != nil { return errors.New(msg) }\<close> followed by \<open>k x\<close>. A
  message built with \<^verbatim>\<open>fmt.Errorf\<close> is kept without its arguments.\<close>

definition orErr :: "'a result \<Rightarrow> string \<Rightarrow> ('a \<Rightarrow> 'b result) \<Rightarrow> 'b result" where
  "orErr r msg k = (case r of Inl Panic \<Rightarrow> Inl Panic | Inl (Err _) \<Rightarrow> Inl (Err msg) | Inr x \<Rightarrow> k x)"

definition CheckTransactionSize :: "Parameters \<Rightarrow> Library \<Rightarrow> Transaction \<Rightarrow> unit result" where
  "CheckTransactionSize cfg lib txn =
     (let size = GetSize lib txn
      in if sint size \<le> 0 \<or> sint size > sint (MaxBlockSize cfg)
         then Inl (Err ''Invalid transaction size'') else Inr ())"

text \<open>Lines 175-184: \<open>seen\<close> holds the inputs before the current one.\<close>

fun checkInputs :: "Input list \<Rightarrow> Input list \<Rightarrow> unit result" where
  "checkInputs seen [] = Inr ()"
| "checkInputs seen (utxoin # rest) =
     (if TxID (Previous utxoin) = EmptyHash \<and> Index (Previous utxoin) = 0xFFFF
      then Inl (Err ''invalid transaction input'')
      else if list_ex (\<lambda>earlier. Previous utxoin = Previous earlier) seen
      then Inl (Err ''duplicated transaction inputs'')
      else checkInputs (seen @ [utxoin]) rest)"

definition CheckTransactionInput :: "Transaction \<Rightarrow> unit result" where
  "CheckTransactionInput txn =
     (if IsCoinBaseTx txn then
        (case Inputs txn of
           [i0] \<Rightarrow>
             if TxID (Previous i0) \<noteq> EmptyHash \<or> Index (Previous i0) \<noteq> 0xFFFF
             then Inl (Err ''invalid coinbase input'') else Inr ()
         | _ \<Rightarrow> Inl (Err ''coinbase must has only one input''))
      else if IsRechargeToSideChainTx txn then Inr ()
      else if length (Inputs txn) \<le> 0 then Inl (Err ''transaction has no inputs'')
      else checkInputs [] (Inputs txn))"

definition CheckOutputProgramHash :: "Library \<Rightarrow> uint168 \<Rightarrow> bool" where
  "CheckOutputProgramHash lib programHash =
     (let prefix = fst programHash
      in prefix = PrefixStandard lib \<or> prefix = PrefixMultisig lib \<or>
         prefix = PrefixCrossChain lib \<or> prefix = PrefixRegisterId lib \<or>
         programHash = EmptyUint168)"

text \<open>Lines 197-202: total reward and foundation reward of a coinbase.\<close>

fun rewards :: "uint168 \<Rightarrow> Output list \<Rightarrow> fixed64 \<times> fixed64 \<Rightarrow> fixed64 \<times> fixed64" where
  "rewards fa [] acc = acc"
| "rewards fa (output # rest) (totalReward, foundationReward) =
     rewards fa rest
       (totalReward + Value output,
        if ProgramHash output = fa then foundationReward + Value output else foundationReward)"

text \<open>Lines 215-233.\<close>

fun checkOutputs :: "Library \<Rightarrow> Ledger \<Rightarrow> Transaction \<Rightarrow> Output list \<Rightarrow> unit result" where
  "checkOutputs lib ledger txn [] = Inr ()"
| "checkOutputs lib ledger txn (output # rest) =
     (case
        (if AssetID output = EmptyHash then Inl (Err ''asset id is nil'')
         else if AssetID output = Blockchain_AssetID ledger then
           (if sint (Value output) < 0 \<or> sgn (TokenValue output) \<noteq> 0
            then Inl (Err ''invalid transaction output with ela asset id'')
            else Inr ())
         else
           (if IsRechargeToSideChainTx txn \<or> IsTransferCrossChainAssetTx txn
            then Inl (Err ''cross chain asset tx asset id should only be ela asset id'')
            else if sgn (TokenValue output) < 0 \<or> Value output \<noteq> 0
            then Inl (Err ''invalid transaction output with token asset id'')
            else Inr ()))
      of
        Inl e \<Rightarrow> Inl e
      | Inr _ \<Rightarrow>
          if \<not> CheckOutputProgramHash lib (ProgramHash output)
          then Inl (Err ''output address is invalid'')
          else checkOutputs lib ledger txn rest)"

definition CheckTransactionOutput ::
  "Parameters \<Rightarrow> Library \<Rightarrow> Ledger \<Rightarrow> Transaction \<Rightarrow> unit result" where
  "CheckTransactionOutput cfg lib ledger txn =
     (if IsCoinBaseTx txn then
        (if length (Outputs txn) < 2 then Inl (Err ''coinbase output is not enough, at least 2'')
         else
           (case rewards (FoundationAddress cfg) (Outputs txn) (0, 0) of
              (totalReward, foundationReward) \<Rightarrow>
                if sint foundationReward < sint (mulFoundationShare lib totalReward)
                then Inl (Err ''Reward to foundation in coinbase < 30%'')
                else Inr ()))
      else if length (Outputs txn) < 1 then Inl (Err ''transaction has no outputs'')
      else checkOutputs lib ledger txn (Outputs txn))"

text \<open>Lines 261-273, over the reference map.\<close>

fun checkLocks :: "Transaction \<Rightarrow> (Input \<times> Output) list \<Rightarrow> unit result" where
  "checkLocks txn [] = Inr ()"
| "checkLocks txn ((input, output) # rest) =
     (if OutputLock output = 0 then checkLocks txn rest
      else if Sequence input \<noteq> 0xFFFFFFFE then Inl (Err ''Invalid input sequence'')
      else if LockTime txn < OutputLock output then Inl (Err ''UTXO output locked'')
      else checkLocks txn rest)"

definition CheckTransactionUTXOLock :: "Ledger \<Rightarrow> Transaction \<Rightarrow> unit result" where
  "CheckTransactionUTXOLock ledger txn =
     (if IsCoinBaseTx txn then Inr ()
      else if length (Inputs txn) \<le> 0 then Inl (Err ''Transaction has no inputs'')
      else orErr (GetTxReference ledger txn) ''GetReference failed'' (checkLocks txn))"

text \<open>\<^verbatim>\<open>checkAmountPrecise\<close>: the exponent is a byte difference, which wraps; Go's
  \<^verbatim>\<open>%\<close> truncates (\<open>smod\<close>) and panics on a zero divisor.\<close>

definition pow10 :: "Library \<Rightarrow> nat \<Rightarrow> fixed64" where
  "pow10 lib n = (if n \<le> 18 then 10 ^ n else pow10Overflow lib)"

definition checkAmountPrecise :: "Library \<Rightarrow> fixed64 \<Rightarrow> 8 word \<Rightarrow> 8 word \<Rightarrow> bool result" where
  "checkAmountPrecise lib amount precision assetPrecision =
     (let d = pow10 lib (unat (assetPrecision - precision))
      in if d = 0 then Inl Panic else Inr (sint amount smod sint d = 0))"

text \<open>Lines 296-298: the outputs grouped by asset id.\<close>

fun groupByAsset :: "Output list \<Rightarrow> (uint256 \<times> Output list) list \<Rightarrow> (uint256 \<times> Output list) list" where
  "groupByAsset [] assetOutputs = assetOutputs"
| "groupByAsset (v # vs) assetOutputs =
     groupByAsset vs
       (AList.update (AssetID v)
          ((case map_of assetOutputs (AssetID v) of Some l \<Rightarrow> l | None \<Rightarrow> []) @ [v])
          assetOutputs)"

text \<open>Lines 305-315.\<close>

fun checkOutputsPrecise :: "Library \<Rightarrow> Ledger \<Rightarrow> 8 word \<Rightarrow> Output list \<Rightarrow> unit result" where
  "checkOutputsPrecise lib ledger precision [] = Inr ()"
| "checkOutputsPrecise lib ledger precision (output # rest) =
     (if AssetID output = Blockchain_AssetID ledger then
        (case checkAmountPrecise lib (Value output) precision 8 of
           Inl e \<Rightarrow> Inl e
         | Inr ok \<Rightarrow>
             if \<not> ok then Inl (Err ''Invalide ela asset value,out of precise.'')
             else checkOutputsPrecise lib ledger precision rest)
      else
        (case checkAmountPrecise lib (Value output) precision 18 of
           Inl e \<Rightarrow> Inl e
         | Inr ok \<Rightarrow>
             if \<not> ok then Inl (Err ''Invalide asset value,out of precise.'')
             else checkOutputsPrecise lib ledger precision rest))"

text \<open>Lines 299-316.\<close>

fun checkAssets :: "Library \<Rightarrow> Ledger \<Rightarrow> (uint256 \<times> Output list) list \<Rightarrow> unit result" where
  "checkAssets lib ledger [] = Inr ()"
| "checkAssets lib ledger ((k, outputs) # rest) =
     orErr (GetAsset ledger k) ''The asset not exist in local blockchain.''
       (\<lambda>asset.
          case checkOutputsPrecise lib ledger (Precision asset) outputs of
            Inl e \<Rightarrow> Inl e
          | Inr _ \<Rightarrow> checkAssets lib ledger rest)"

definition CheckAssetPrecision :: "Library \<Rightarrow> Ledger \<Rightarrow> Transaction \<Rightarrow> unit result" where
  "CheckAssetPrecision lib ledger txn =
     (if TxType txn = RegisterAsset then Inr ()
      else if length (Outputs txn) = 0 then Inr ()
      else checkAssets lib ledger (groupByAsset (Outputs txn) []))"

text \<open>\<^verbatim>\<open>CheckTransactionFee\<close>. The loop over the transaction's outputs occurs twice in the
  source (lines 325-331 and 345-351), on the same two accumulators.\<close>

fun addAmounts :: "uint256 \<Rightarrow> Output list \<Rightarrow> fixed64 \<times> int \<Rightarrow> fixed64 \<times> int" where
  "addAmounts ela [] acc = acc"
| "addAmounts ela (output # rest) (elaAmount, tokenAmount) =
     addAmounts ela rest
       (if AssetID output = ela then (elaAmount + Value output, tokenAmount)
        else (elaAmount, tokenAmount + TokenValue output))"

definition CheckTransactionFee :: "Parameters \<Rightarrow> Ledger \<Rightarrow> Transaction \<Rightarrow> unit result" where
  "CheckTransactionFee cfg ledger txn =
     (let out1 = addAmounts (Blockchain_AssetID ledger) (Outputs txn) (0, 0)
      in case GetTxReference ledger txn of
           Inl err \<Rightarrow> Inl err
         | Inr references \<Rightarrow>
             (case addAmounts (Blockchain_AssetID ledger) (map snd references) (0, 0) of
                (elaInputAmount, tokenInputAmount) \<Rightarrow>
                  (case addAmounts (Blockchain_AssetID ledger) (Outputs txn) out1 of
                     (elaOutputAmount, tokenOutputAmount) \<Rightarrow>
                       let elaBalance = elaInputAmount - elaOutputAmount
                       in case
                            (if IsTransferCrossChainAssetTx txn \<or> IsRechargeToSideChainTx txn then
                               (if sint elaBalance < sint (MinCrossChainTxFee cfg)
                                then Inl (Err ''crosschain transaction fee is not enough'')
                                else Inr ())
                             else
                               (if sint elaBalance < sint (MinTxFee cfg)
                                then Inl (Err ''transaction fee is not enough'')
                                else Inr ()))
                          of
                            Inl e \<Rightarrow> Inl e
                          | Inr _ \<Rightarrow>
                              if sgn (tokenInputAmount - tokenOutputAmount) \<noteq> 0
                              then Inl (Err ''token amount is not balanced'')
                              else Inr ())))"

text \<open>Lines 373-377 and 380-391.\<close>

fun checkAttributes :: "Library \<Rightarrow> Attribute list \<Rightarrow> unit result" where
  "checkAttributes lib [] = Inr ()"
| "checkAttributes lib (attr # rest) =
     (if \<not> IsValidAttributeType lib (Usage attr) then Inl (Err ''invalid attribute usage'')
      else checkAttributes lib rest)"

fun checkPrograms :: "Library \<Rightarrow> Program list \<Rightarrow> unit result" where
  "checkPrograms lib [] = Inr ()"
| "checkPrograms lib (program # rest) =
     (case Code program of
        None \<Rightarrow> Inl (Err ''invalid program code nil'')
      | Some code \<Rightarrow>
          (case Parameter program of
             None \<Rightarrow> Inl (Err ''invalid program parameter nil'')
           | Some _ \<Rightarrow>
               orErr (ToProgramHash lib code) ''invalid program code''
                 (\<lambda>_. checkPrograms lib rest)))"

definition CheckAttributeProgram :: "Library \<Rightarrow> Transaction \<Rightarrow> unit result" where
  "CheckAttributeProgram lib txn =
     (case checkAttributes lib (Attributes txn) of
        Inl e \<Rightarrow> Inl e
      | Inr _ \<Rightarrow> checkPrograms lib (Programs txn))"

definition CheckTransactionSignature :: "Ledger \<Rightarrow> Transaction \<Rightarrow> unit result" where
  "CheckTransactionSignature ledger txn = VerifySignature ledger txn"

definition CheckTransactionPayload ::
  "Parameters \<Rightarrow> Library \<Rightarrow> Ledger \<Rightarrow> Transaction \<Rightarrow> unit result" where
  "CheckTransactionPayload cfg lib ledger txn =
     (case Payload txn of
        PayloadRegisterAsset asset amount controller \<Rightarrow>
          if Precision asset < MinPrecision cfg \<or> Precision asset > MaxPrecision cfg
          then Inl (Err ''Invalide asset Precision.'')
          else if Hash lib txn = Blockchain_AssetID ledger then
            (case checkAmountPrecise lib amount (Precision asset) 8 of
               Inl e \<Rightarrow> Inl e
             | Inr ok \<Rightarrow>
                 if \<not> ok then Inl (Err ''Invalide ela asset value,out of precise.'') else Inr ())
          else
            (case checkAmountPrecise lib amount (Precision asset) 18 of
               Inl e \<Rightarrow> Inl e
             | Inr ok \<Rightarrow>
                 if \<not> ok then Inl (Err ''Invalide asset value,out of precise.'') else Inr ())
      | PayloadTransferAsset \<Rightarrow> Inr ()
      | PayloadRecord \<Rightarrow> Inr ()
      | PayloadCoinBase \<Rightarrow> Inr ()
      | PayloadRechargeToSideChain _ _ \<Rightarrow> Inr ()
      | PayloadTransferCrossChainAsset _ _ _ \<Rightarrow> Inr ()
      | PayloadRegisterIdentification \<Rightarrow> Inr ()
      | PayloadUnknown \<Rightarrow> Inl (Err ''[txValidator],invalidate transaction payload type.''))"

section \<open>Cross-chain verifier\<close>

text \<open>Lines 472-497 of \<^verbatim>\<open>CheckRechargeToSideChainTransaction\<close>: \<open>i\<close> is the loop index,
  the next argument the number of iterations left, the last the running
  \<^verbatim>\<open>oriOutputTotalAmount\<close>, which the loop returns.\<close>

fun rechargeEntries ::
  "Parameters \<Rightarrow> Library \<Rightarrow> Transaction \<Rightarrow> ElaTransaction \<Rightarrow> uint168
     \<Rightarrow> string list \<Rightarrow> 64 word list \<Rightarrow> fixed64 list \<Rightarrow> nat \<Rightarrow> nat \<Rightarrow> fixed64
     \<Rightarrow> fixed64 result" where
  "rechargeEntries cfg lib txn mc genesisProgramHash addrs idxs amounts i 0 acc = Inr acc"
| "rechargeEntries cfg lib txn mc genesisProgramHash addrs idxs amounts i (Suc n) acc =
     (case index idxs i of
        Inl e \<Rightarrow> Inl e
      | Inr oi \<Rightarrow>
          (case index (ela_Outputs mc) (unat oi) of
             Inl e \<Rightarrow> Inl e
           | Inr mcOut \<Rightarrow>
               if ela_ProgramHash mcOut = genesisProgramHash then
                 (case index amounts i of
                    Inl e \<Rightarrow> Inl e
                  | Inr amount \<Rightarrow>
                      if sint amount < 0
                         \<or> sint amount > sint (ela_Value mcOut - MinCrossChainTxFee cfg)
                      then Inl (Err ''Invalid transaction cross chain amount'')
                      else
                        let crossChainAmount = mulExchangeRate lib amount
                        in orErr (Uint168FromAddress lib (addrs ! i))
                             ''Invalid transaction payload cross chain address''
                             (\<lambda>programHash.
                                if \<not> list_ex (\<lambda>output. ProgramHash output = programHash
                                                 \<and> Value output = crossChainAmount) (Outputs txn)
                                then Inl (Err ''Invalid transaction outputs'')
                                else rechargeEntries cfg lib txn mc genesisProgramHash
                                       addrs idxs amounts (Suc i) n (acc + crossChainAmount)))
               else rechargeEntries cfg lib txn mc genesisProgramHash
                      addrs idxs amounts (Suc i) n acc))"

text \<open>Lines 499-505.\<close>

fun targetTotal :: "Output list \<Rightarrow> fixed64 \<Rightarrow> fixed64 result" where
  "targetTotal [] acc = Inr acc"
| "targetTotal (output # rest) acc =
     (if sint (Value output) < 0 then Inl (Err ''Invalid transaction output value'')
      else targetTotal rest (acc + Value output))"

definition CheckRechargeToSideChainTransaction ::
  "Parameters \<Rightarrow> Library \<Rightarrow> Ledger \<Rightarrow> Transaction \<Rightarrow> unit result" where
  "CheckRechargeToSideChainTransaction cfg lib ledger txn =
     (case Payload txn of
        PayloadRechargeToSideChain merkleProof mainChainTransaction \<Rightarrow>
          if ExchangeRate cfg \<le> 0 then Inl (Err ''Invalid config exchange rate'')
          else
            orErr (DeserializeMerkleProof lib merkleProof)
              ''RechargeToSideChain payload deserialize failed''
              (\<lambda>_.
            orErr (DeserializeElaTransaction lib mainChainTransaction)
              ''RechargeToSideChain mainChainTransaction deserialize failed''
              (\<lambda>mc.
                 if IsMainchainTxHashDuplicate ledger (ela_Hash mc)
                 then Inl (Err ''Duplicate mainchain transaction hash in paylod'')
                 else
                   (case ela_Payload mc of
                      ElaPayloadTransferCrossChainAsset addrs idxs amounts \<Rightarrow>
                        orErr (GetGenesisProgramHash lib (GetBlockHash ledger 0))
                          ''Genesis block bytes to program hash failed''
                          (\<lambda>genesisProgramHash.
                             case rechargeEntries cfg lib txn mc genesisProgramHash
                                    addrs idxs amounts 0 (length addrs) 0 of
                               Inl e \<Rightarrow> Inl e
                             | Inr oriOutputTotalAmount \<Rightarrow>
                                 (case targetTotal (Outputs txn) 0 of
                                    Inl e \<Rightarrow> Inl e
                                  | Inr targetOutputTotalAmount \<Rightarrow>
                                      if targetOutputTotalAmount \<noteq> oriOutputTotalAmount
                                      then Inl (Err ''Output and fee verify failed'')
                                      else Inr ()))
                    | ElaPayloadOther \<Rightarrow>
                        Inl (Err ''Invalid payload ela.PayloadTransferCrossChainAsset''))))
      | _ \<Rightarrow> Inl (Err ''Invalid recharge to side chain payload type''))"

text \<open>Lines 528-533 of \<^verbatim>\<open>CheckTransferCrossChainAssetTransaction\<close>: the index map is the
  list of indexes already met; \<^verbatim>\<open>int(outputIndex)\<close> reads the unsigned index as signed.\<close>

fun checkIndexes :: "Transaction \<Rightarrow> 64 word list \<Rightarrow> 64 word list \<Rightarrow> unit result" where
  "checkIndexes txn outputIndexMap [] = Inr ()"
| "checkIndexes txn outputIndexMap (outputIndex # rest) =
     (if outputIndex \<in> set outputIndexMap \<or> sint outputIndex \<ge> int (length (Outputs txn))
      then Inl (Err ''Invalid transaction payload cross chain index'')
      else checkIndexes txn (outputIndex # outputIndexMap) rest)"

text \<open>Lines 545-556.\<close>

fun checkAddresses :: "Library \<Rightarrow> string list \<Rightarrow> unit result" where
  "checkAddresses lib [] = Inr ()"
| "checkAddresses lib (address # rest) =
     (if address = [] then Inl (Err ''Invalid transaction cross chain address'')
      else
        orErr (Uint168FromAddress lib address) ''Invalid transaction cross chain address''
          (\<lambda>programHash.
             if fst programHash \<noteq> PrefixStandard lib \<and> fst programHash \<noteq> PrefixMultisig lib
             then Inl (Err ''Invalid transaction cross chain address'')
             else checkAddresses lib rest))"

text \<open>Lines 559-567: both lists have the length of the address list here.\<close>

fun checkAmounts ::
  "Parameters \<Rightarrow> Transaction \<Rightarrow> 64 word list \<Rightarrow> fixed64 list \<Rightarrow> unit result" where
  "checkAmounts cfg txn (oi # idxs) (amount # amounts) =
     (case index (Outputs txn) (unat oi) of
        Inl e \<Rightarrow> Inl e
      | Inr output \<Rightarrow>
          if ProgramHash output \<noteq> EmptyUint168
          then Inl (Err ''Invalid transaction output program hash'')
          else if sint (Value output) < 0 \<or> sint amount < 0
                  \<or> sint amount > sint (Value output - MinCrossChainTxFee cfg)
          then Inl (Err ''Invalid transaction outputs'')
          else checkAmounts cfg txn idxs amounts)"
| "checkAmounts cfg txn [] amounts = Inr ()"
| "checkAmounts cfg txn (oi # idxs) [] = Inl Panic"

definition CheckTransferCrossChainAssetTransaction ::
  "Parameters \<Rightarrow> Library \<Rightarrow> Ledger \<Rightarrow> Transaction \<Rightarrow> unit result" where
  "CheckTransferCrossChainAssetTransaction cfg lib ledger txn =
     (case Payload txn of
        PayloadTransferCrossChainAsset addrs idxs amounts \<Rightarrow>
          if length addrs = 0 \<or> length addrs > length (Outputs txn)
             \<or> length addrs \<noteq> length amounts \<or> length amounts \<noteq> length idxs
          then Inl (Err ''Invalid transaction payload content'')
          else
            (case checkIndexes txn [] idxs of
               Inl e \<Rightarrow> Inl e
             | Inr _ \<Rightarrow>
                 if length addrs
                      \<noteq> length (filter (\<lambda>output. ProgramHash output = EmptyUint168) (Outputs txn))
                 then Inl (Err ''Invalid transaction cross chain counts'')
                 else
                   (case checkAddresses lib addrs of
                      Inl e \<Rightarrow> Inl e
                    | Inr _ \<Rightarrow>
                        (case checkAmounts cfg txn idxs amounts of
                           Inl e \<Rightarrow> Inl e
                         | Inr _ \<Rightarrow>
                             orErr (GetTxReference ledger txn) ''Invalid transaction inputs''
                               (\<lambda>reference.
                                  let totalInput = sum_list (map (Value \<circ> snd) reference);
                                      totalOutput = sum_list (map Value (Outputs txn))
                                  in if sint (totalInput - totalOutput)
                                          < sint (MinCrossChainTxFee cfg)
                                     then Inl (Err ''Invalid transaction fee'')
                                     else Inr ()))))
      | _ \<Rightarrow> Inl (Err ''Invalid transfer cross chain asset payload type''))"

text \<open>\<^verbatim>\<open>CheckRegisterAssetTransaction\<close>, lines 607-614: the total token amount of the
  outputs in the registered asset.\<close>

fun registeredTotal :: "uint256 \<Rightarrow> uint168 \<Rightarrow> Output list \<Rightarrow> int \<Rightarrow> int result" where
  "registeredTotal assetHash controller [] totalToken = Inr totalToken"
| "registeredTotal assetHash controller (output # rest) totalToken =
     (if AssetID output = assetHash then
        (if ProgramHash output \<noteq> controller
         then Inl (Err ''Register asset program hash not same as program hash in payload'')
         else registeredTotal assetHash controller rest (totalToken + TokenValue output))
      else registeredTotal assetHash controller rest totalToken)"

definition getPrecisionBigInt :: int where
  "getPrecisionBigInt = 1000000000000000000"

definition CheckRegisterAssetTransaction ::
  "Library \<Rightarrow> Ledger \<Rightarrow> Transaction \<Rightarrow> unit result" where
  "CheckRegisterAssetTransaction lib ledger txn =
     (case Payload txn of
        PayloadRegisterAsset asset amount controller \<Rightarrow>
          if list_ex (\<lambda>a. Name a = Name asset) (GetAssets ledger)
          then Inl (Err ''Asset name has been registed'')
          else
            (case registeredTotal (AssetHash lib asset) controller (Outputs txn) 0 of
               Inl e \<Rightarrow> Inl e
             | Inr totalToken \<Rightarrow>
                 if totalToken \<noteq> sint amount * getPrecisionBigInt
                 then Inl (Err ''Invalid register asset amount'')
                 else Inr ())
      | _ \<Rightarrow> Inl (Err ''Invalid register asset transaction payload''))"

section \<open>The two phases\<close>

text \<open>\<open>guard r code k\<close> is \<^verbatim>\<open>if err := check(txn); err != nil { return code }\<close> followed
  by \<open>k\<close>; a panic inside the check leaves the validator without a verdict.\<close>

definition guard :: "unit result \<Rightarrow> ErrCode \<Rightarrow> ErrCode result \<Rightarrow> ErrCode result" where
  "guard r code k = (case r of Inl Panic \<Rightarrow> Inl Panic | Inl (Err _) \<Rightarrow> Inr code | Inr _ \<Rightarrow> k)"

definition CheckTransactionSanity ::
  "Parameters \<Rightarrow> Library \<Rightarrow> Ledger \<Rightarrow> Transaction \<Rightarrow> ErrCode result" where
  "CheckTransactionSanity cfg lib ledger txn =
     guard (CheckTransactionSize cfg lib txn) ErrTransactionSize
    (guard (CheckTransactionInput txn) ErrInvalidInput
    (guard (CheckTransactionOutput cfg lib ledger txn) ErrInvalidOutput
    (guard (CheckAssetPrecision lib ledger txn) ErrAssetPrecision
    (guard (CheckAttributeProgram lib txn) ErrAttributeProgram
    (guard (CheckTransactionPayload cfg lib ledger txn) ErrTransactionPayload
    (if IsCoinBaseTx txn then Inr Success else Inr Success))))))"

text \<open>Lines 119-147 of \<^verbatim>\<open>CheckTransactionContext\<close>: the referenced outputs.\<close>

fun checkReferences :: "Parameters \<Rightarrow> Ledger \<Rightarrow> Input list \<Rightarrow> ErrCode result" where
  "checkReferences cfg ledger [] = Inr Success"
| "checkReferences cfg ledger (input # rest) =
     (case GetTransaction ledger (TxID (Previous input)) of
        Inl Panic \<Rightarrow> Inl Panic
      | Inl (Err _) \<Rightarrow> Inr ErrUnknownReferedTxn
      | Inr (referTxn, _) \<Rightarrow>
          (case index (Outputs referTxn) (unat (Index (Previous input))) of
             Inl e \<Rightarrow> Inl e
           | Inr referTxnOut \<Rightarrow>
               if AssetID referTxnOut = Blockchain_AssetID ledger \<and> sint (Value referTxnOut) \<le> 0
               then Inr ErrInvalidReferedTxn
               else if IsCoinBaseTx referTxn
                       \<and> GetHeight ledger - LockTime referTxn < SpendCoinbaseSpan cfg
               then Inr ErrIneffectiveCoinbase
               else checkReferences cfg ledger rest))"

text \<open>Lines 95-149: what follows the transfer-cross-chain-asset block.\<close>

definition contextFromRegisterAsset ::
  "Parameters \<Rightarrow> Library \<Rightarrow> Ledger \<Rightarrow> Transaction \<Rightarrow> ErrCode result" where
  "contextFromRegisterAsset cfg lib ledger txn =
     guard (if IsRegisterAssetTx txn then CheckRegisterAssetTransaction lib ledger txn else Inr ())
       ErrInvalidOutput
    (if IsDoubleSpend ledger txn then Inr ErrDoubleSpend
     else
       guard (CheckTransactionUTXOLock ledger txn) ErrUTXOLocked
      (guard (CheckTransactionFee cfg ledger txn) ErrTransactionBalance
      (checkReferences cfg ledger (Inputs txn))))"

definition CheckTransactionContext ::
  "Parameters \<Rightarrow> Library \<Rightarrow> Ledger \<Rightarrow> Transaction \<Rightarrow> ErrCode result" where
  "CheckTransactionContext cfg lib ledger txn =
     (if IsTxHashDuplicate ledger (Hash lib txn) then Inr ErrTxHashDuplicate
      else if IsCoinBaseTx txn then Inr Success
      else
        guard (CheckTransactionSignature ledger txn) ErrTransactionSignature
       (if IsRechargeToSideChainTx txn then
          guard (CheckRechargeToSideChainTransaction cfg lib ledger txn) ErrRechargeToSideChain
            (Inr Success)
        else
          guard (if IsTransferCrossChainAssetTx txn
                 then CheckTransferCrossChainAssetTransaction cfg lib ledger txn else Inr ())
            ErrInvalidOutput
            (contextFromRegisterAsset cfg lib ledger txn)))"

section \<open>Staged cache\<close>
















section \<open>Notions used in the statements\<close>

text \<open>The sum of the \<^verbatim>\<open>Value\<close> fields of the outputs in asset \<open>a\<close>, in \<^verbatim>\<open>Fixed64\<close>
  arithmetic; it is 0 when there is none.\<close>

definition sumAsset :: "uint256 \<Rightarrow> Output list \<Rightarrow> fixed64" where
  "sumAsset a os = sum_list (map Value (filter (\<lambda>v. AssetID v = a) os))"

text \<open>An output with its \<^verbatim>\<open>TokenValue\<close> blanked: two outputs with the same view differ at
  most in their token value.\<close>

definition valueView :: "Output \<Rightarrow> Output" where
  "valueView v = v\<lparr>TokenValue := 0\<rparr>"

text \<open>The fee rule in the words of the specification: the native-asset values and the
  token values of a list of outputs, as integers, the minimum fee that applies to a
  transaction, and the rule itself.\<close>

definition elaValues :: "uint256 \<Rightarrow> Output list \<Rightarrow> int" where
  "elaValues ela os = sum_list (map (\<lambda>v. sint (Value v)) (filter (\<lambda>v. AssetID v = ela) os))"

definition tokenValues :: "uint256 \<Rightarrow> Output list \<Rightarrow> int" where
  "tokenValues ela os = sum_list (map TokenValue (filter (\<lambda>v. AssetID v \<noteq> ela) os))"

definition minimumFee :: "Parameters \<Rightarrow> Transaction \<Rightarrow> int" where
  "minimumFee cfg txn =
     (if IsTransferCrossChainAssetTx txn \<or> IsRechargeToSideChainTx txn
      then sint (MinCrossChainTxFee cfg) else sint (MinTxFee cfg))"

definition feeSufficient ::
  "Parameters \<Rightarrow> Ledger \<Rightarrow> (Input \<times> Output) list \<Rightarrow> Transaction \<Rightarrow> bool" where
  "feeSufficient cfg ledger references txn \<longleftrightarrow>
     elaValues (Blockchain_AssetID ledger) (map snd references)
       - elaValues (Blockchain_AssetID ledger) (Outputs txn) \<ge> minimumFee cfg txn
     \<and> tokenValues (Blockchain_AssetID ledger) (map snd references)
         - tokenValues (Blockchain_AssetID ledger) (Outputs txn) = 0"

text \<open>The expected total of a recharge: entry \<open>i\<close> of the embedded payload counts when
  the main-chain output it refers to exists and pays the genesis program hash; the total
  adds, over those entries, the entry's cross-chain amount converted at the exchange rate,
  in \<^verbatim>\<open>Fixed64\<close> arithmetic.\<close>

definition entryTargets :: "ElaTransaction \<Rightarrow> uint168 \<Rightarrow> 64 word list \<Rightarrow> nat \<Rightarrow> bool" where
  "entryTargets mc g idxs i \<longleftrightarrow>
     i < length idxs \<and> unat (idxs ! i) < length (ela_Outputs mc)
     \<and> ela_ProgramHash (ela_Outputs mc ! unat (idxs ! i)) = g"

definition expectedBetween ::
  "Library \<Rightarrow> ElaTransaction \<Rightarrow> uint168 \<Rightarrow> 64 word list \<Rightarrow> fixed64 list \<Rightarrow> nat \<Rightarrow> nat \<Rightarrow> fixed64" where
  "expectedBetween lib mc g idxs amounts i j =
     sum_list (map (\<lambda>k. mulExchangeRate lib (amounts ! k)) (filter (entryTargets mc g idxs) [i..<j]))"

definition expectedTotal ::
  "Library \<Rightarrow> ElaTransaction \<Rightarrow> uint168 \<Rightarrow> string list \<Rightarrow> 64 word list \<Rightarrow> fixed64 list \<Rightarrow> fixed64" where
  "expectedTotal lib mc g addrs idxs amounts = expectedBetween lib mc g idxs amounts 0 (length addrs)"

text \<open>The same totals as integers, without wrap-around: the values of the outputs in asset
  \<open>a\<close>, the values of all outputs of a transaction, and the expected total of a recharge.
  An integer fits \<^verbatim>\<open>Fixed64\<close> when it lies in the range of \<^verbatim>\<open>int64\<close>.\<close>

definition sumValues :: "uint256 \<Rightarrow> Output list \<Rightarrow> int" where
  "sumValues a os = sum_list (map (\<lambda>v. sint (Value v)) (filter (\<lambda>v. AssetID v = a) os))"

definition outputTotal :: "Transaction \<Rightarrow> int" where
  "outputTotal txn = sum_list (map (\<lambda>v. sint (Value v)) (Outputs txn))"

definition expectedTotalInt ::
  "Library \<Rightarrow> ElaTransaction \<Rightarrow> uint168 \<Rightarrow> string list \<Rightarrow> 64 word list \<Rightarrow> fixed64 list \<Rightarrow> int" where
  "expectedTotalInt lib mc g addrs idxs amounts =
     sum_list (map (\<lambda>k. sint (mulExchangeRate lib (amounts ! k)))
       (filter (entryTargets mc g idxs) [0..<length addrs]))"

definition fitsFixed64 :: "int \<Rightarrow> bool" where
  "fitsFixed64 k \<longleftrightarrow> - (2 ^ 63) \<le> k \<and> k < 2 ^ 63"

text \<open>An output with its \<^verbatim>\<open>TokenValue\<close> replaced.\<close>

definition setTokenValue :: "(Output \<Rightarrow> int) \<Rightarrow> Output \<Rightarrow> Output" where
  "setTokenValue t v = v\<lparr>TokenValue := t v\<rparr>"


section \<open>Concrete inputs\<close>

text \<open>A configuration, a library and a ledger on which the definitions can be run. The
  native asset has id 1 and precision 8; asset 2 is a token of precision 0. Every input
  spends an output of the stored transaction 5, whose outputs are 250 native units and 7
  units of token 3. The library's exchange rate is 1, and its foundation share is the exact
  product rounded down.\<close>

definition cfg0 :: Parameters where
  "cfg0 = \<lparr>MaxBlockSize = 1000000, MinTxFee = 100, MinCrossChainTxFee = 200, ExchangeRate = 1,
     SpendCoinbaseSpan = 100, FoundationAddress = (0x21, 1), MinPrecision = 0, MaxPrecision = 18\<rparr>"

definition elaOut :: "fixed64 \<Rightarrow> Output" where
  "elaOut v = \<lparr>AssetID = 1, Value = v, TokenValue = 0, OutputLock = 0, ProgramHash = (0x21, 2)\<rparr>"

definition tokenOut :: "uint256 \<Rightarrow> int \<Rightarrow> Output" where
  "tokenOut a t = \<lparr>AssetID = a, Value = 0, TokenValue = t, OutputLock = 0, ProgramHash = (0x21, 2)\<rparr>"

definition inputAt :: "16 word \<Rightarrow> Input" where
  "inputAt i = \<lparr>Previous = \<lparr>TxID = 5, Index = i\<rparr>, Sequence = 0\<rparr>"

definition prevTx :: Transaction where
  "prevTx = \<lparr>TxType = TransferAsset, Payload = PayloadTransferAsset, Attributes = [],
     Inputs = [inputAt 7], Outputs = [elaOut 250, tokenOut 3 7], LockTime = 0, Programs = []\<rparr>"

definition mc0 :: ElaTransaction where
  "mc0 = \<lparr>ela_Hash = 77, ela_Outputs = [\<lparr>ela_ProgramHash = (0x4B, 1), ela_Value = 20000\<rparr>],
     ela_Payload = ElaPayloadTransferCrossChainAsset [''A''] [0] [500]\<rparr>"

definition lib0 :: Library where
  "lib0 = \<lparr>Hash = (\<lambda>tx. 1000 + of_nat (length (Outputs tx))),
     GetSize = (\<lambda>tx. 100),
     AssetHash = (\<lambda>a. 2),
     IsValidAttributeType = (\<lambda>u. True),
     ToProgramHash = (\<lambda>c. Inr (0x21, 5)),
     Uint168FromAddress = (\<lambda>a. if a = ''A'' then Inr (0x21, 9) else Inl (Err ''invalid address'')),
     ToAddress = (\<lambda>h. Inr ''A''),
     GetGenesisProgramHash = (\<lambda>h. Inr (0x4B, 1)),
     DeserializeMerkleProof = (\<lambda>b. Inr ()),
     DeserializeElaTransaction = (\<lambda>b. Inr mc0),
     DeserializeTransaction = (\<lambda>b. Inl (Err ''unexpected end of data'')),
     mulExchangeRate = (\<lambda>x. x),
     mulFoundationShare = (\<lambda>x. word_of_int (sint x * 3 div 10)),
     pow10Overflow = 0x8000000000000000,
     PrefixStandard = 0x21, PrefixMultisig = 0x12, PrefixCrossChain = 0x4B,
     PrefixRegisterId = 0x67\<rparr>"

definition refsOf :: "Transaction \<Rightarrow> (Input \<times> Output) list" where
  "refsOf tx = map (\<lambda>i. (i, Outputs prevTx ! unat (Index (Previous i)))) (Inputs tx)"

definition ledger0 :: Ledger where
  "ledger0 = \<lparr>Blockchain_AssetID = 1,
     IsTxHashDuplicate = (\<lambda>h. False),
     IsMainchainTxHashDuplicate = (\<lambda>h. False),
     GetTxReference = (\<lambda>tx. Inr (refsOf tx)),
     GetTransaction = (\<lambda>h. if h = 5 then Inr (prevTx, 3) else Inl (Err ''leveldb: not found'')),
     GetHeight = 10,
     GetBlockHash = (\<lambda>h. 99),
     GetAssets = [],
     GetAsset = (\<lambda>a. if a = 1 then Inr \<lparr>Name = ''ELA'', Precision = 8\<rparr>
                     else if a = 2 then Inr \<lparr>Name = ''TOK'', Precision = 0\<rparr>
                     else Inl (Err ''leveldb: not found'')),
     IsDoubleSpend = (\<lambda>tx. False),
     VerifySignature = (\<lambda>tx. Inr ())\<rparr>"

definition txFee :: Transaction where
  "txFee = \<lparr>TxType = TransferAsset, Payload = PayloadTransferAsset, Attributes = [],
     Inputs = [inputAt 0, inputAt 1], Outputs = [elaOut 100, tokenOut 2 5], LockTime = 0,
     Programs = []\<rparr>"

text \<open>Two transfers that differ in one token value only, and a plain payment of 100
  native units out of an input of 250.\<close>

definition txFee' :: Transaction where
  "txFee' = \<lparr>TxType = TransferAsset, Payload = PayloadTransferAsset, Attributes = [],
     Inputs = [inputAt 0, inputAt 1], Outputs = [elaOut 100, tokenOut 2 900], LockTime = 0,
     Programs = []\<rparr>"

definition txPay :: Transaction where
  "txPay = \<lparr>TxType = TransferAsset, Payload = PayloadTransferAsset, Attributes = [],
     Inputs = [inputAt 0], Outputs = [elaOut 100], LockTime = 0, Programs = []\<rparr>"

text \<open>A recharge whose two inputs are the same, a coinbase that pays the foundation
  only, a ledger that already holds every hash, a ledger without registered assets, a
  transfer-cross-chain-asset transaction whose payload names no address, and a transfer
  whose first and third inputs are the same.\<close>

definition txRecharge :: Transaction where
  "txRecharge = \<lparr>TxType = RechargeToSideChain, Payload = PayloadRechargeToSideChain [] [],
     Attributes = [], Inputs = [inputAt 0, inputAt 0],
     Outputs = [\<lparr>AssetID = 1, Value = 500, TokenValue = 0, OutputLock = 0,
                 ProgramHash = (0x21, 9)\<rparr>],
     LockTime = 0, Programs = []\<rparr>"

text \<open>A payment out of an input of 250 whose three native outputs add up to \<open>2 ^ 64\<close>, and
  the recharge above with four more outputs of \<open>2 ^ 62\<close> each.\<close>

definition txWrap :: Transaction where
  "txWrap = \<lparr>TxType = TransferAsset, Payload = PayloadTransferAsset, Attributes = [],
     Inputs = [inputAt 0],
     Outputs = [elaOut 9223372036854775807, elaOut 9223372036854775807, elaOut 2],
     LockTime = 0, Programs = []\<rparr>"

definition txMint :: Transaction where
  "txMint = \<lparr>TxType = RechargeToSideChain, Payload = PayloadRechargeToSideChain [] [],
     Attributes = [], Inputs = [],
     Outputs = [\<lparr>AssetID = 1, Value = 500, TokenValue = 0, OutputLock = 0,
                 ProgramHash = (0x21, 9)\<rparr>,
                elaOut 4611686018427387904, elaOut 4611686018427387904,
                elaOut 4611686018427387904, elaOut 4611686018427387904],
     LockTime = 0, Programs = []\<rparr>"

definition txCoinbase :: Transaction where
  "txCoinbase = \<lparr>TxType = CoinBase, Payload = PayloadCoinBase, Attributes = [],
     Inputs = [\<lparr>Previous = \<lparr>TxID = 0, Index = 0xFFFF\<rparr>, Sequence = 0\<rparr>],
     Outputs = [\<lparr>AssetID = 1, Value = 50, TokenValue = 0, OutputLock = 0,
                 ProgramHash = (0x21, 1)\<rparr>,
                \<lparr>AssetID = 1, Value = 50, TokenValue = 0, OutputLock = 0,
                 ProgramHash = (0x21, 1)\<rparr>],
     LockTime = 0, Programs = []\<rparr>"

definition ledgerDup :: Ledger where
  "ledgerDup = ledger0\<lparr>IsTxHashDuplicate := (\<lambda>h. True)\<rparr>"

definition ledgerNoAssets :: Ledger where
  "ledgerNoAssets = ledger0\<lparr>GetAsset := (\<lambda>a. Inl (Err ''leveldb: not found''))\<rparr>"

definition txCross :: Transaction where
  "txCross = \<lparr>TxType = TransferCrossChainAsset,
     Payload = PayloadTransferCrossChainAsset [] [] [], Attributes = [],
     Inputs = [inputAt 0], Outputs = [elaOut 10], LockTime = 0, Programs = []\<rparr>"

definition txDup :: Transaction where
  "txDup = \<lparr>TxType = TransferAsset, Payload = PayloadTransferAsset, Attributes = [],
     Inputs = [inputAt 0, inputAt 1, inputAt 0], Outputs = [elaOut 100], LockTime = 0,
     Programs = []\<rparr>"

text \<open>A later state of the ledger: more blocks, more spent outputs, the same assets.\<close>

definition ledgerLater :: Ledger where
  "ledgerLater = ledger0\<lparr>GetHeight := 5000, IsTxHashDuplicate := (\<lambda>h. True),
     IsDoubleSpend := (\<lambda>tx. True), GetAssets := [\<lparr>Name = ''ELA'', Precision = 8\<rparr>]\<rparr>"



section \<open>Properties of the fee helper\<close>

lemma distinct_sumByAsset:
  "distinct (map fst m) \<Longrightarrow> distinct (map fst (sumByAsset vs m))"
  by (induction vs arbitrary: m) (auto simp: distinct_update split: option.splits)

lemma filter_asset_notin:
  "a \<notin> AssetID ` set vs \<Longrightarrow> filter (\<lambda>v. AssetID v = a) vs = []"
  by (induction vs) auto

lemma map_of_sumByAsset:
  "map_of (sumByAsset vs m) a =
     (if a \<in> AssetID ` set vs then Some (get0 m a + sumAsset a vs) else map_of m a)"
proof (induction vs arbitrary: m)
  case Nil
  then show ?case by (simp add: sumAsset_def)
next
  case (Cons v vs)
  show ?case
    by (auto simp: Cons.IH sumAsset_def get0_def update_conv' add.assoc filter_asset_notin
          split: option.splits)
qed

lemma map_of_balanceOutputs:
  "distinct (map fst outs) \<Longrightarrow>
   map_of (balanceOutputs inputs outs feeMap) a =
     (case map_of outs a of
        Some ov \<Rightarrow> Some ((case map_of inputs a of Some iv \<Rightarrow> iv | None \<Rightarrow> get0 feeMap a) - ov)
      | None \<Rightarrow> map_of feeMap a)"
proof (induction outs arbitrary: feeMap)
  case Nil
  then show ?case by simp
next
  case (Cons p outs)
  obtain k ov where p: "p = (k, ov)" by (cases p)
  from Cons.prems p have d: "distinct (map fst outs)" and k: "k \<notin> fst ` set outs" by auto
  from k have none: "map_of outs k = None" by (simp add: map_of_eq_None_iff)
  show ?case
    using none by (auto simp: p Cons.IH [OF d] update_conv' get0_def split: option.splits)
qed

lemma map_of_balanceInputs:
  "distinct (map fst ins) \<Longrightarrow>
   map_of (balanceInputs ins feeMap) a =
     (case map_of feeMap a of Some x \<Rightarrow> Some x | None \<Rightarrow> map_of ins a)"
proof (induction ins arbitrary: feeMap)
  case Nil
  then show ?case by (simp split: option.splits)
next
  case (Cons p ins)
  obtain k iv where p: "p = (k, iv)" by (cases p)
  from Cons.prems p have d: "distinct (map fst ins)" and k: "k \<notin> fst ` set ins" by auto
  from k have none: "map_of ins k = None" by (simp add: map_of_eq_None_iff)
  show ?case
    using none by (auto simp: p Cons.IH [OF d] update_conv' get0_def split: option.splits)
qed


lemma sum_list_word_of_int: "sum_list ws = (word_of_int (sum_list (map sint ws)) :: 64 word)"
  by (induction ws) simp_all

lemma sint_word_of_int_fits: "fitsFixed64 k \<Longrightarrow> sint (word_of_int k :: 64 word) = k"
  by (simp add: fitsFixed64_def signed_of_int signed_take_bit_int_eq_self)

lemma sumAsset_sumValues: "sumAsset a os = word_of_int (sumValues a os)"
  by (simp add: sumAsset_def sumValues_def sum_list_word_of_int [of "map Value _"] comp_def)

lemma GetTxFeeMap_entries:
  assumes "\<not> IsRechargeToSideChainTx tx" and "GetTxReference db tx = Inr reference"
  shows "\<exists>feeMap. GetTxFeeMap lib db tx = Inr feeMap \<and>
           (\<forall>a. map_of feeMap a =
              (if a \<in> AssetID ` set (Outputs tx)
               then Some (sumAsset a (map snd reference) - sumAsset a (Outputs tx))
               else if a \<in> AssetID ` set (map snd reference)
               then Some (sumAsset a (map snd reference))
               else None))"
proof -
  let ?ins = "sumByAsset (map snd reference) []"
  let ?outs = "sumByAsset (Outputs tx) []"
  let ?fm = "balanceInputs ?ins (balanceOutputs ?ins ?outs [])"
  have run: "GetTxFeeMap lib db tx = Inr ?fm"
    using assms by (simp add: GetTxFeeMap_def Let_def)
  have di: "distinct (map fst ?ins)" and do: "distinct (map fst ?outs)"
    by (simp_all add: distinct_sumByAsset)
  have "map_of ?fm a =
          (if a \<in> AssetID ` set (Outputs tx)
           then Some (sumAsset a (map snd reference) - sumAsset a (Outputs tx))
           else if a \<in> AssetID ` set (map snd reference)
           then Some (sumAsset a (map snd reference))
           else None)" for a
    by (simp add: map_of_balanceInputs [OF di] map_of_balanceOutputs [OF do]
        map_of_sumByAsset get0_def sumAsset_def filter_asset_notin)
  with run show ?thesis by blast
qed

text \<open>
  C9. The claim: in the general (non-recharge) case, when the input references resolve,
  \<^verbatim>\<open>GetTxFeeMap\<close> maps every asset that occurs among the outputs to the sum of its
  referenced input values minus the sum of its output values (the input sum being zero when
  the asset has no input), and every asset that occurs only among the inputs to the sum of
  its input values. As amended: the entry is that integer reduced modulo \<open>2 ^ 64\<close> into
  \<^verbatim>\<open>Fixed64\<close>, since the sums and the difference are formed in wrapping \<^verbatim>\<open>int64\<close>
  arithmetic; it is the integer itself whenever that fits \<^verbatim>\<open>Fixed64\<close>; and no other asset
  has an entry. The lemmas on \<open>balanceOutputs\<close> and \<open>balanceInputs\<close> hold for any listing
  of the intermediate maps, so the order in which Go ranges over them does not matter.
\<close>

theorem GetTxFeeMap_general_case:
  assumes "\<not> IsRechargeToSideChainTx tx" and "GetTxReference db tx = Inr reference"
  shows "\<exists>feeMap. GetTxFeeMap lib db tx = Inr feeMap \<and>
           (\<forall>a. map_of feeMap a =
              (if a \<in> AssetID ` set (Outputs tx)
               then Some (word_of_int
                      (sumValues a (map snd reference) - sumValues a (Outputs tx)))
               else if a \<in> AssetID ` set (map snd reference)
               then Some (word_of_int (sumValues a (map snd reference)))
               else None)) \<and>
           (\<forall>a. a \<in> AssetID ` set (Outputs tx) \<and>
                fitsFixed64 (sumValues a (map snd reference) - sumValues a (Outputs tx)) \<longrightarrow>
                map_option sint (map_of feeMap a)
                  = Some (sumValues a (map snd reference) - sumValues a (Outputs tx))) \<and>
           (\<forall>a. a \<notin> AssetID ` set (Outputs tx) \<and> a \<in> AssetID ` set (map snd reference) \<and>
                fitsFixed64 (sumValues a (map snd reference)) \<longrightarrow>
                map_option sint (map_of feeMap a) = Some (sumValues a (map snd reference)))"
proof -
  from GetTxFeeMap_entries [OF assms, of lib] obtain feeMap
    where run: "GetTxFeeMap lib db tx = Inr feeMap"
      and entries: "\<And>a. map_of feeMap a =
              (if a \<in> AssetID ` set (Outputs tx)
               then Some (sumAsset a (map snd reference) - sumAsset a (Outputs tx))
               else if a \<in> AssetID ` set (map snd reference)
               then Some (sumAsset a (map snd reference))
               else None)"
    by blast
  have modular: "map_of feeMap a =
              (if a \<in> AssetID ` set (Outputs tx)
               then Some (word_of_int
                      (sumValues a (map snd reference) - sumValues a (Outputs tx)))
               else if a \<in> AssetID ` set (map snd reference)
               then Some (word_of_int (sumValues a (map snd reference)))
               else None)" for a
    by (simp add: entries sumAsset_sumValues)
  have exact_out: "map_option sint (map_of feeMap a)
        = Some (sumValues a (map snd reference) - sumValues a (Outputs tx))"
    if "a \<in> AssetID ` set (Outputs tx)"
      and "fitsFixed64 (sumValues a (map snd reference) - sumValues a (Outputs tx))" for a
    using that by (simp add: modular sint_word_of_int_fits del: of_int_diff)
  have exact_in: "map_option sint (map_of feeMap a) = Some (sumValues a (map snd reference))"
    if "a \<notin> AssetID ` set (Outputs tx)" and "a \<in> AssetID ` set (map snd reference)"
      and "fitsFixed64 (sumValues a (map snd reference))" for a
    using that by (simp add: modular sint_word_of_int_fits)
  from run modular exact_out exact_in show ?thesis
    by blast
qed

theorem GetTxFeeMap_general_case_witness:
  "\<not> IsRechargeToSideChainTx txFee \<and> GetTxReference ledger0 txFee = Inr (refsOf txFee) \<and>
   GetTxFeeMap lib0 ledger0 txFee = Inr [(1, 150), (2, 0), (3, 0)]"
  using GetTxFeeMap_general_case [of txFee ledger0 "refsOf txFee" lib0]
  by (simp add: IsRechargeToSideChainTx_def txFee_def ledger0_def refsOf_def prevTx_def
      GetTxFeeMap_def elaOut_def tokenOut_def inputAt_def get0_def)

text \<open>The claim as stated fails where the output sum overflows: with one input of 250 and
  native outputs of \<open>2 ^ 63 - 1\<close>, \<open>2 ^ 63 - 1\<close> and 2 the entry of the native asset is
  250, and the sum of the inputs minus the sum of the outputs is \<open>250 - 2 ^ 64\<close>.\<close>

theorem GetTxFeeMap_overflow_counterexample:
  "\<not> IsRechargeToSideChainTx txWrap \<and> GetTxReference ledger0 txWrap = Inr (refsOf txWrap) \<and>
   GetTxFeeMap lib0 ledger0 txWrap = Inr [(1, 250)] \<and>
   sumValues 1 (map snd (refsOf txWrap)) - sumValues 1 (Outputs txWrap) = 250 - 2 ^ 64"
  by (simp add: IsRechargeToSideChainTx_def txWrap_def ledger0_def refsOf_def prevTx_def
      GetTxFeeMap_def elaOut_def tokenOut_def inputAt_def get0_def sumValues_def)

lemma sumByAsset_valueView: "sumByAsset (map valueView vs) m = sumByAsset vs m"
  by (induction vs arbitrary: m) (simp_all add: valueView_def split: option.splits)

lemma sumByAsset_cong_valueView:
  assumes "map valueView vs = map valueView ws"
  shows "sumByAsset vs m = sumByAsset ws m"
proof -
  have "sumByAsset vs m = sumByAsset (map valueView vs) m"
    by (simp add: sumByAsset_valueView)
  also have "\<dots> = sumByAsset (map valueView ws) m"
    by (simp add: assms)
  finally show ?thesis
    by (simp add: sumByAsset_valueView)
qed

lemma sumAsset_all_zero:
  "list_all (\<lambda>v. AssetID v = a \<longrightarrow> Value v = 0) os \<Longrightarrow> sumAsset a os = 0"
  by (induction os) (simp_all add: sumAsset_def)

text \<open>
  C10. In the non-recharge case \<^verbatim>\<open>GetTxFeeMap\<close> accumulates the per-asset input and output
  sums from the \<^verbatim>\<open>Value\<close> field of each referenced output and of each output, for every
  asset, token assets included, and never from a \<^verbatim>\<open>TokenValue\<close>: each entry of the map is
  the \<^verbatim>\<open>Fixed64\<close> sum of the input \<^verbatim>\<open>Value\<close>s of its asset minus that of its output
  \<^verbatim>\<open>Value\<close>s; any other run whose referenced outputs and outputs differ from these in
  their token values only returns the same map; and an asset whose referenced outputs and
  outputs all have \<^verbatim>\<open>Value\<close> zero, as the token outputs have that carry their amount in
  \<^verbatim>\<open>TokenValue\<close>, has no entry other than zero, whatever the token values are.
\<close>

theorem GetTxFeeMap_ignores_TokenValue:
  assumes "\<not> IsRechargeToSideChainTx tx" and "GetTxReference db tx = Inr reference"
  shows "\<exists>feeMap. GetTxFeeMap lib db tx = Inr feeMap \<and>
           (\<forall>a. map_of feeMap a =
              (if a \<in> AssetID ` set (Outputs tx)
               then Some (sumAsset a (map snd reference) - sumAsset a (Outputs tx))
               else if a \<in> AssetID ` set (map snd reference)
               then Some (sumAsset a (map snd reference))
               else None)) \<and>
           (\<forall>db' tx' reference'.
              \<not> IsRechargeToSideChainTx tx' \<and> GetTxReference db' tx' = Inr reference' \<and>
              map valueView (map snd reference') = map valueView (map snd reference) \<and>
              map valueView (Outputs tx') = map valueView (Outputs tx) \<longrightarrow>
              GetTxFeeMap lib db' tx' = Inr feeMap) \<and>
           (\<forall>a. list_all (\<lambda>v. AssetID v = a \<longrightarrow> Value v = 0) (map snd reference @ Outputs tx) \<longrightarrow>
              get0 feeMap a = 0)"
proof -
  from GetTxFeeMap_entries [OF assms, of lib] obtain feeMap
    where run: "GetTxFeeMap lib db tx = Inr feeMap"
      and entries: "\<And>a. map_of feeMap a =
              (if a \<in> AssetID ` set (Outputs tx)
               then Some (sumAsset a (map snd reference) - sumAsset a (Outputs tx))
               else if a \<in> AssetID ` set (map snd reference)
               then Some (sumAsset a (map snd reference))
               else None)"
    by blast
  have other: "GetTxFeeMap lib db' tx' = Inr feeMap"
    if "\<not> IsRechargeToSideChainTx tx'" and "GetTxReference db' tx' = Inr reference'"
      and r: "map valueView (map snd reference') = map valueView (map snd reference)"
      and o: "map valueView (Outputs tx') = map valueView (Outputs tx)"
    for db' tx' reference'
  proof -
    have "GetTxFeeMap lib db' tx' = GetTxFeeMap lib db tx"
      using that(1,2) assms
      by (simp add: GetTxFeeMap_def Let_def sumByAsset_cong_valueView [OF r]
          sumByAsset_cong_valueView [OF o])
    with run show ?thesis by simp
  qed
  have zero: "get0 feeMap a = 0"
    if "list_all (\<lambda>v. AssetID v = a \<longrightarrow> Value v = 0) (map snd reference @ Outputs tx)" for a
  proof -
    from that have "sumAsset a (map snd reference) = 0" and "sumAsset a (Outputs tx) = 0"
      by (simp_all add: sumAsset_all_zero)
    then show ?thesis
      by (simp add: get0_def entries)
  qed
  from run entries other zero show ?thesis
    by blast
qed

theorem GetTxFeeMap_ignores_TokenValue_witness:
  "\<not> IsRechargeToSideChainTx txFee \<and> GetTxReference ledger0 txFee = Inr (refsOf txFee) \<and>
   Outputs txFee \<noteq> Outputs txFee' \<and>
   GetTxFeeMap lib0 ledger0 txFee = Inr [(1, 150), (2, 0), (3, 0)] \<and>
   GetTxFeeMap lib0 ledger0 txFee' = Inr [(1, 150), (2, 0), (3, 0)]"
proof -
  have kind: "\<not> IsRechargeToSideChainTx txFee" and kind': "\<not> IsRechargeToSideChainTx txFee'"
    by (simp_all add: IsRechargeToSideChainTx_def txFee_def txFee'_def)
  have refs: "GetTxReference ledger0 txFee = Inr (refsOf txFee)"
    and refs': "GetTxReference ledger0 txFee' = Inr (refsOf txFee')"
    by (simp_all add: ledger0_def)
  have same_refs: "map valueView (map snd (refsOf txFee')) = map valueView (map snd (refsOf txFee))"
    by (simp add: refsOf_def txFee_def txFee'_def)
  have same_outs: "map valueView (Outputs txFee') = map valueView (Outputs txFee)"
    by (simp add: txFee_def txFee'_def valueView_def tokenOut_def elaOut_def)
  have neq: "Outputs txFee \<noteq> Outputs txFee'"
    by (simp add: txFee_def txFee'_def tokenOut_def)
  have here: "GetTxFeeMap lib0 ledger0 txFee = Inr [(1, 150), (2, 0), (3, 0)]"
    by (simp add: IsRechargeToSideChainTx_def txFee_def ledger0_def refsOf_def prevTx_def
        GetTxFeeMap_def elaOut_def tokenOut_def inputAt_def get0_def)
  from GetTxFeeMap_ignores_TokenValue [OF kind refs, of lib0] obtain feeMap
    where "GetTxFeeMap lib0 ledger0 txFee = Inr feeMap"
      and "\<forall>db' tx' reference'.
              \<not> IsRechargeToSideChainTx tx' \<and> GetTxReference db' tx' = Inr reference' \<and>
              map valueView (map snd reference') = map valueView (map snd (refsOf txFee)) \<and>
              map valueView (Outputs tx') = map valueView (Outputs txFee) \<longrightarrow>
              GetTxFeeMap lib0 db' tx' = Inr feeMap"
    by blast
  with kind' refs' same_refs same_outs
  have "GetTxFeeMap lib0 ledger0 txFee' = GetTxFeeMap lib0 ledger0 txFee"
    by metis
  with kind refs neq here show ?thesis by simp
qed

section \<open>Properties of the fee check\<close>

lemma addAmounts_eq:
  "addAmounts ela os (e, t) = (e + sum_list (map Value (filter (\<lambda>v. AssetID v = ela) os)),
                              t + tokenValues ela os)"
  by (induction os arbitrary: e t) (simp_all add: tokenValues_def add.assoc)

lemma CheckTransactionFee_computes:
  assumes "GetTxReference ledger txn = Inr references"
  shows "CheckTransactionFee cfg ledger txn = Inr () \<longleftrightarrow>
     sint (sum_list (map Value (filter (\<lambda>v. AssetID v = Blockchain_AssetID ledger) (map snd references)))
           - 2 * sum_list (map Value (filter (\<lambda>v. AssetID v = Blockchain_AssetID ledger) (Outputs txn))))
       \<ge> minimumFee cfg txn
     \<and> tokenValues (Blockchain_AssetID ledger) (map snd references)
         - 2 * tokenValues (Blockchain_AssetID ledger) (Outputs txn) = 0"
  using assms
  by (auto simp: CheckTransactionFee_def addAmounts_eq minimumFee_def Let_def sgn_if
      split: if_splits)


text \<open>
  C1. The claim: \<^verbatim>\<open>CheckTransactionFee\<close> succeeds exactly when the native-asset balance
  (referenced native input values minus native output values) is at least the minimum fee
  that applies and the token balance is zero. The function adds the outputs to the output
  totals twice, as \<open>CheckTransactionFee_computes\<close> shows, so it compares inputs minus
  twice the outputs. On a payment of 100 out of an input of 250, with a minimum fee of 100,
  the rule of the claim holds (the balance is 150) and the function rejects the
  transaction (it computes 50).
\<close>

theorem CheckTransactionFee_counts_outputs_twice:
  "GetTxReference ledger0 txPay = Inr (refsOf txPay) \<and>
   feeSufficient cfg0 ledger0 (refsOf txPay) txPay \<and>
   CheckTransactionFee cfg0 ledger0 txPay = Inl (Err ''transaction fee is not enough'')"
  by (simp add: CheckTransactionFee_def feeSufficient_def minimumFee_def elaValues_def
      tokenValues_def txPay_def ledger0_def cfg0_def refsOf_def prevTx_def elaOut_def
      tokenOut_def inputAt_def IsTransferCrossChainAssetTx_def IsRechargeToSideChainTx_def)

section \<open>Properties of the validator\<close>

lemmas demo_defs = cfg0_def lib0_def ledger0_def refsOf_def prevTx_def elaOut_def tokenOut_def
  inputAt_def mc0_def

lemmas tx_kinds = IsCoinBaseTx_def IsRechargeToSideChainTx_def IsTransferCrossChainAssetTx_def
  IsRegisterAssetTx_def

lemmas sanity_defs = CheckTransactionSanity_def guard_def CheckTransactionSize_def
  CheckTransactionInput_def CheckTransactionOutput_def CheckOutputProgramHash_def
  CheckAssetPrecision_def checkAmountPrecise_def pow10_def CheckAttributeProgram_def
  CheckTransactionPayload_def orErr_def EmptyHash_def EmptyUint168_def smod_int_alt_def

lemmas context_defs = CheckTransactionContext_def contextFromRegisterAsset_def guard_def
  CheckTransactionSignature_def CheckTransactionUTXOLock_def CheckTransactionFee_def
  CheckTransferCrossChainAssetTransaction_def orErr_def index_def

lemma checkInputs_no_panic: "checkInputs seen ins \<noteq> Inl Panic"
  by (induction ins arbitrary: seen) simp_all

lemma checkInputs_ok:
  "checkInputs seen ins = Inr () \<Longrightarrow>
     distinct (map Previous ins) \<and> Previous ` set ins \<inter> Previous ` set seen = {}"
proof (induction ins arbitrary: seen)
  case Nil
  then show ?case by simp
next
  case (Cons u ins)
  from Cons.prems have new: "Previous u \<notin> Previous ` set seen"
    and rest: "checkInputs (seen @ [u]) ins = Inr ()"
    by (auto simp: list_ex_iff split: if_splits)
  from Cons.IH [OF rest] new show ?case by auto
qed

lemma checkInputs_duplicate:
  assumes "i < j" and "j < length ins" and "Previous (ins ! i) = Previous (ins ! j)"
  shows "\<exists>msg. checkInputs [] ins = Inl (Err msg)"
proof -
  have il: "i < length ins" and ij: "i \<noteq> j"
    using assms(1,2) by auto
  have "\<not> distinct (map Previous ins)"
  proof
    assume "distinct (map Previous ins)"
    with il assms(2) ij nth_eq_iff_index_eq [of "map Previous ins" i j]
    have "Previous (ins ! i) \<noteq> Previous (ins ! j)"
      by simp
    with assms(3) show False by simp
  qed
  then have "checkInputs [] ins \<noteq> Inr ()"
    using checkInputs_ok [of "[]" ins] by blast
  with checkInputs_no_panic [of "[]" ins] show ?thesis
    by (cases "checkInputs [] ins") (auto intro: error.exhaust)
qed

lemma CheckTransactionInput_duplicate:
  assumes "\<not> IsRechargeToSideChainTx txn"
    and "i < j" and "j < length (Inputs txn)"
    and "Previous (Inputs txn ! i) = Previous (Inputs txn ! j)"
  shows "\<exists>msg. CheckTransactionInput txn = Inl (Err msg)"
proof (cases "IsCoinBaseTx txn")
  case True
  from assms(2,3) have "2 \<le> length (Inputs txn)" by simp
  then show ?thesis
    using True by (auto simp: CheckTransactionInput_def split: list.splits)
next
  case False
  from assms(2,3) have "\<not> length (Inputs txn) \<le> 0" by auto
  with False assms(1) checkInputs_duplicate [OF assms(2,3,4)] show ?thesis
    by (simp add: CheckTransactionInput_def)
qed

text \<open>
  C5. The claim: every transaction with two inputs that reference the same previous output
  (same transaction id and output index) is rejected by the sanity phase with
  \<open>ErrInvalidInput\<close>, whatever its type. As amended: this holds for every transaction
  that passes the size check, which comes first, and is not a recharge-to-side-chain
  transaction, which \<^verbatim>\<open>CheckTransactionInput\<close> lets through without looking at its
  inputs; coinbase transactions are covered, since they must have exactly one input.
\<close>

theorem duplicate_inputs_rejected:
  assumes "CheckTransactionSize cfg lib txn = Inr ()"
    and "\<not> IsRechargeToSideChainTx txn"
    and "i < j" and "j < length (Inputs txn)"
    and "Previous (Inputs txn ! i) = Previous (Inputs txn ! j)"
  shows "CheckTransactionSanity cfg lib ledger txn = Inr ErrInvalidInput"
proof -
  from CheckTransactionInput_duplicate [OF assms(2-5)]
  obtain msg where "CheckTransactionInput txn = Inl (Err msg)" ..
  with assms(1) show ?thesis
    by (simp add: CheckTransactionSanity_def guard_def)
qed

theorem duplicate_inputs_rejected_witness:
  "CheckTransactionSize cfg0 lib0 txDup = Inr () \<and> \<not> IsRechargeToSideChainTx txDup \<and>
   Previous (Inputs txDup ! 0) = Previous (Inputs txDup ! 2) \<and>
   CheckTransactionSanity cfg0 lib0 ledger0 txDup = Inr ErrInvalidInput"
  using duplicate_inputs_rejected [of cfg0 lib0 txDup 0 2 ledger0]
  by (simp add: CheckTransactionSize_def IsRechargeToSideChainTx_def txDup_def cfg0_def lib0_def)

text \<open>The claim as stated fails on a recharge transaction whose two inputs are the same:
  the sanity phase accepts it.\<close>

theorem duplicate_inputs_recharge_counterexample:
  "IsRechargeToSideChainTx txRecharge \<and> length (Inputs txRecharge) = 2 \<and>
   Previous (Inputs txRecharge ! 0) = Previous (Inputs txRecharge ! 1) \<and>
   CheckTransactionSanity cfg0 lib0 ledger0 txRecharge = Inr Success"
  by (simp add: sanity_defs tx_kinds demo_defs txRecharge_def)

text \<open>
  C6. The claim: \<^verbatim>\<open>CheckTransactionContext\<close> returns \<open>Success\<close> on every coinbase
  transaction, whatever the ledger state. As amended: on a coinbase transaction it runs the
  duplicate-hash check, which comes before the coinbase test, and nothing else; it returns
  \<open>Success\<close> when the hash of the transaction is not yet in the ledger, and
  \<open>ErrTxHashDuplicate\<close> when it is.
\<close>

theorem coinbase_context:
  assumes "IsCoinBaseTx txn"
  shows "CheckTransactionContext cfg lib ledger txn =
           (if IsTxHashDuplicate ledger (Hash lib txn) then Inr ErrTxHashDuplicate
            else Inr Success)"
  using assms by (simp add: CheckTransactionContext_def)

theorem coinbase_context_witness:
  "IsCoinBaseTx txCoinbase \<and> \<not> IsTxHashDuplicate ledger0 (Hash lib0 txCoinbase) \<and>
   CheckTransactionContext cfg0 lib0 ledger0 txCoinbase = Inr Success"
  using coinbase_context [of txCoinbase cfg0 lib0 ledger0]
  by (simp add: IsCoinBaseTx_def txCoinbase_def ledger0_def)

text \<open>The claim as stated fails on a coinbase that passes the sanity phase when the ledger
  already holds its hash.\<close>

theorem coinbase_duplicate_hash_counterexample:
  "IsCoinBaseTx txCoinbase \<and>
   CheckTransactionSanity cfg0 lib0 ledgerDup txCoinbase = Inr Success \<and>
   CheckTransactionContext cfg0 lib0 ledgerDup txCoinbase = Inr ErrTxHashDuplicate"
proof -
  have "CheckTransactionSanity cfg0 lib0 ledgerDup txCoinbase = Inr Success"
    by (simp add: sanity_defs tx_kinds demo_defs txCoinbase_def ledgerDup_def)
  moreover have "CheckTransactionContext cfg0 lib0 ledgerDup txCoinbase = Inr ErrTxHashDuplicate"
    by (simp add: CheckTransactionContext_def ledgerDup_def)
  moreover have "IsCoinBaseTx txCoinbase"
    by (simp add: IsCoinBaseTx_def txCoinbase_def)
  ultimately show ?thesis by simp
qed

text \<open>
  C2. The claim: when \<^verbatim>\<open>CheckTransferCrossChainAssetTransaction\<close> fails on a
  transfer-cross-chain-asset transaction, \<^verbatim>\<open>CheckTransactionContext\<close> does not return
  there, and the later checks give the verdict. As amended: once the duplicate-hash check
  and the signature check have passed, a failure of
  \<^verbatim>\<open>CheckTransferCrossChainAssetTransaction\<close> makes \<^verbatim>\<open>CheckTransactionContext\<close> return
  \<open>ErrInvalidOutput\<close> at that point, whatever the later checks would say.
\<close>

theorem cross_chain_failure_returns:
  assumes "IsTransferCrossChainAssetTx txn"
    and "\<not> IsTxHashDuplicate ledger (Hash lib txn)"
    and "CheckTransactionSignature ledger txn = Inr ()"
    and "CheckTransferCrossChainAssetTransaction cfg lib ledger txn = Inl (Err msg)"
  shows "CheckTransactionContext cfg lib ledger txn = Inr ErrInvalidOutput"
  using assms by (simp add: CheckTransactionContext_def guard_def tx_kinds)

theorem cross_chain_failure_returns_witness:
  "IsTransferCrossChainAssetTx txCross \<and> \<not> IsTxHashDuplicate ledger0 (Hash lib0 txCross) \<and>
   CheckTransactionSignature ledger0 txCross = Inr () \<and>
   CheckTransferCrossChainAssetTransaction cfg0 lib0 ledger0 txCross
     = Inl (Err ''Invalid transaction payload content'') \<and>
   CheckTransactionContext cfg0 lib0 ledger0 txCross = Inr ErrInvalidOutput"
  using cross_chain_failure_returns [of txCross ledger0 lib0 cfg0
      "''Invalid transaction payload content''"]
  by (simp add: IsTransferCrossChainAssetTx_def CheckTransactionSignature_def
      CheckTransferCrossChainAssetTransaction_def txCross_def ledger0_def)

text \<open>The claim as stated fails on a transfer-cross-chain-asset transaction with an empty
  payload: the later checks (register-asset, double spend, lock, fee, referenced outputs)
  all pass, and the verdict is \<open>ErrInvalidOutput\<close> all the same.\<close>

theorem cross_chain_failure_counterexample:
  "IsTransferCrossChainAssetTx txCross \<and>
   CheckTransferCrossChainAssetTransaction cfg0 lib0 ledger0 txCross
     = Inl (Err ''Invalid transaction payload content'') \<and>
   contextFromRegisterAsset cfg0 lib0 ledger0 txCross = Inr Success \<and>
   CheckTransactionContext cfg0 lib0 ledger0 txCross = Inr ErrInvalidOutput"
  by (simp add: context_defs tx_kinds demo_defs txCross_def)

lemma checkOutputs_ledger:
  "Blockchain_AssetID l1 = Blockchain_AssetID l2 \<Longrightarrow>
   checkOutputs lib l1 txn os = checkOutputs lib l2 txn os"
  by (induction os) simp_all

lemma checkOutputsPrecise_ledger:
  "Blockchain_AssetID l1 = Blockchain_AssetID l2 \<Longrightarrow>
   checkOutputsPrecise lib l1 p os = checkOutputsPrecise lib l2 p os"
  by (induction os) (simp_all split: sum.splits)

lemma checkAssets_ledger:
  assumes "Blockchain_AssetID l1 = Blockchain_AssetID l2"
    and "\<forall>k\<in>fst ` set al. GetAsset l1 k = GetAsset l2 k"
  shows "checkAssets lib l1 al = checkAssets lib l2 al"
  using assms(2)
proof (induction al)
  case Nil
  then show ?case by simp
next
  case (Cons p al)
  obtain k os where p: "p = (k, os)" by (cases p)
  from Cons.prems p have k: "GetAsset l1 k = GetAsset l2 k"
    and rest: "\<forall>k\<in>fst ` set al. GetAsset l1 k = GetAsset l2 k" by auto
  show ?case
    by (simp add: p k Cons.IH [OF rest] checkOutputsPrecise_ledger [OF assms(1)] orErr_def
        split: sum.splits error.splits)
qed

lemma groupByAsset_keys:
  "fst ` set (groupByAsset vs m) = fst ` set m \<union> AssetID ` set vs"
  by (induction vs arbitrary: m) (auto simp: dom_update)

text \<open>
  C7. The claim: the verdict of \<^verbatim>\<open>CheckTransactionSanity\<close> depends on the transaction and
  the static chain parameters alone, so that it is the same on any two ledger states. As
  amended: it is the same on any two ledger states that have the same native asset id and
  the same asset-registry entries (\<^verbatim>\<open>GetAsset\<close>) for the asset ids of the transaction's
  outputs; nothing else of the ledger is read.
\<close>

theorem sanity_depends_on_asset_registry:
  assumes "Blockchain_AssetID l1 = Blockchain_AssetID l2"
    and "\<forall>v\<in>set (Outputs txn). GetAsset l1 (AssetID v) = GetAsset l2 (AssetID v)"
  shows "CheckTransactionSanity cfg lib l1 txn = CheckTransactionSanity cfg lib l2 txn"
proof -
  have out: "CheckTransactionOutput cfg lib l1 txn = CheckTransactionOutput cfg lib l2 txn"
    by (simp add: CheckTransactionOutput_def checkOutputs_ledger [OF assms(1)])
  have "\<forall>k\<in>fst ` set (groupByAsset (Outputs txn) []). GetAsset l1 k = GetAsset l2 k"
    using assms(2) by (auto simp: groupByAsset_keys)
  then have prec: "CheckAssetPrecision lib l1 txn = CheckAssetPrecision lib l2 txn"
    by (simp add: CheckAssetPrecision_def checkAssets_ledger [OF assms(1)])
  have pay: "CheckTransactionPayload cfg lib l1 txn = CheckTransactionPayload cfg lib l2 txn"
    unfolding CheckTransactionPayload_def assms(1) ..
  show ?thesis
    by (simp add: CheckTransactionSanity_def out prec pay)
qed

theorem sanity_depends_on_asset_registry_witness:
  "ledger0 \<noteq> ledgerLater \<and>
   CheckTransactionSanity cfg0 lib0 ledger0 txPay = CheckTransactionSanity cfg0 lib0 ledgerLater txPay"
proof -
  have "GetHeight ledger0 \<noteq> GetHeight ledgerLater"
    by (simp add: ledger0_def ledgerLater_def)
  then have "ledger0 \<noteq> ledgerLater" by auto
  moreover have "CheckTransactionSanity cfg0 lib0 ledger0 txPay
      = CheckTransactionSanity cfg0 lib0 ledgerLater txPay"
    by (rule sanity_depends_on_asset_registry) (simp_all add: ledgerLater_def)
  ultimately show ?thesis by simp
qed

text \<open>The claim as stated fails: the same payment passes the sanity phase on a ledger that
  has its asset registered and is rejected by \<^verbatim>\<open>CheckAssetPrecision\<close> on one that has
  not.\<close>

theorem sanity_not_context_free_counterexample:
  "CheckTransactionSanity cfg0 lib0 ledger0 txPay = Inr Success \<and>
   CheckTransactionSanity cfg0 lib0 ledgerNoAssets txPay = Inr ErrAssetPrecision"
proof -
  have "CheckTransactionSanity cfg0 lib0 ledger0 txPay = Inr Success"
    by (simp add: sanity_defs tx_kinds demo_defs txPay_def)
  moreover have "CheckTransactionSanity cfg0 lib0 ledgerNoAssets txPay = Inr ErrAssetPrecision"
    by (simp add: sanity_defs tx_kinds demo_defs txPay_def ledgerNoAssets_def)
  ultimately show ?thesis by simp
qed

lemma checkOutputsPrecise_setTokenValue:
  "checkOutputsPrecise lib ledger p (map (setTokenValue t) os) = checkOutputsPrecise lib ledger p os"
  by (induction os) (simp_all add: setTokenValue_def split: sum.splits)

lemma update_map_snd:
  "AList.update k (f v) (map (\<lambda>(k, v). (k, f v)) al) = map (\<lambda>(k, v). (k, f v)) (AList.update k v al)"
  by (induction al) auto

lemma groupByAsset_setTokenValue:
  "groupByAsset (map (setTokenValue t) vs) (map (\<lambda>(k, os). (k, map (setTokenValue t) os)) m)
     = map (\<lambda>(k, os). (k, map (setTokenValue t) os)) (groupByAsset vs m)"
proof (induction vs arbitrary: m)
  case Nil
  then show ?case by simp
next
  case (Cons v vs)
  let ?h = "\<lambda>(k, os). (k, map (setTokenValue t) os)"
  have a: "AssetID (setTokenValue t v) = AssetID v"
    by (simp add: setTokenValue_def)
  have look: "map_of (map ?h m) (AssetID v) = map_option (map (setTokenValue t)) (map_of m (AssetID v))"
    by (induction m) auto
  have "AList.update (AssetID v)
          ((case map_of (map ?h m) (AssetID v) of Some l \<Rightarrow> l | None \<Rightarrow> []) @ [setTokenValue t v])
          (map ?h m)
        = map ?h (AList.update (AssetID v)
            ((case map_of m (AssetID v) of Some l \<Rightarrow> l | None \<Rightarrow> []) @ [v]) m)"
    using update_map_snd [of "AssetID v" "map (setTokenValue t)"
        "(case map_of m (AssetID v) of Some l \<Rightarrow> l | None \<Rightarrow> []) @ [v]" m]
    by (simp add: look split: option.splits)
  then show ?case
    by (simp add: a Cons.IH)
qed

lemma checkAssets_setTokenValue:
  "checkAssets lib ledger (map (\<lambda>(k, os). (k, map (setTokenValue t) os)) al) = checkAssets lib ledger al"
  by (induction al) (auto simp: checkOutputsPrecise_setTokenValue orErr_def split: sum.splits error.splits)

lemma CheckAssetPrecision_ignores_TokenValue:
  "CheckAssetPrecision lib ledger (txn\<lparr>Outputs := map (setTokenValue t) (Outputs txn)\<rparr>)
     = CheckAssetPrecision lib ledger txn"
  using groupByAsset_setTokenValue [of t "Outputs txn" "[]"]
  by (simp add: CheckAssetPrecision_def checkAssets_setTokenValue)

text \<open>
  C8. The claim: an output in a non-native asset of precision \<open>p\<close> is accepted by the
  asset-precision check only if its token amount is divisible by \<open>10 ^ (18 - p)\<close>. The
  check applies \<^verbatim>\<open>checkAmountPrecise\<close> with exponent 18 to the output's \<^verbatim>\<open>Value\<close>, which
  the output check forces to be zero for a token, and never reads its \<^verbatim>\<open>TokenValue\<close>
  (\<open>CheckAssetPrecision_ignores_TokenValue\<close>). An
  output of 5 units of a token of precision 0 is accepted by \<^verbatim>\<open>CheckAssetPrecision\<close> and
  by the whole sanity phase, although 5 is not divisible by \<open>10 ^ 18\<close>.
\<close>

theorem token_amount_precision_unchecked:
  "Outputs txFee ! 1 = tokenOut 2 5 \<and>
   AssetID (tokenOut 2 5) \<noteq> Blockchain_AssetID ledger0 \<and>
   GetAsset ledger0 (AssetID (tokenOut 2 5)) = Inr \<lparr>Name = ''TOK'', Precision = 0\<rparr> \<and>
   TokenValue (tokenOut 2 5) mod 10 ^ (18 - 0) \<noteq> 0 \<and>
   CheckAssetPrecision lib0 ledger0 txFee = Inr () \<and>
   CheckTransactionSanity cfg0 lib0 ledger0 txFee = Inr Success"
  by (simp add: sanity_defs tx_kinds demo_defs txFee_def)

section \<open>Properties of the cross-chain verifier\<close>

lemma targetTotal_sum:
  "targetTotal os acc = Inr r \<Longrightarrow> r = acc + sum_list (map Value os)"
proof (induction os arbitrary: acc)
  case Nil
  then show ?case by simp
next
  case (Cons v os)
  from Cons.prems have "targetTotal os (acc + Value v) = Inr r"
    by (simp split: if_splits)
  from Cons.IH [OF this] show ?case
    by (simp add: add.assoc)
qed

lemma expectedBetween_step:
  "i < j \<Longrightarrow>
   expectedBetween lib mc g idxs amounts i j =
     (if entryTargets mc g idxs i then mulExchangeRate lib (amounts ! i) else 0)
     + expectedBetween lib mc g idxs amounts (Suc i) j"
  by (simp add: expectedBetween_def upt_conv_Cons)

lemma rechargeEntries_sum:
  "rechargeEntries cfg lib txn mc g addrs idxs amounts i n acc = Inr r \<Longrightarrow>
   r = acc + expectedBetween lib mc g idxs amounts i (i + n)"
proof (induction n arbitrary: i acc)
  case 0
  then show ?case by (simp add: expectedBetween_def)
next
  case (Suc n)
  from Suc.prems obtain oi mcOut where oi: "index idxs i = Inr oi"
    and mcOut: "index (ela_Outputs mc) (unat oi) = Inr mcOut"
    by (auto split: sum.splits)
  from oi have il: "i < length idxs" and oi_eq: "oi = idxs ! i"
    by (auto simp: index_def split: if_splits)
  from mcOut oi_eq have ol: "unat (idxs ! i) < length (ela_Outputs mc)"
    and mc_eq: "mcOut = ela_Outputs mc ! unat (idxs ! i)"
    by (auto simp: index_def split: if_splits)
  show ?case
  proof (cases "ela_ProgramHash mcOut = g")
    case True
    then have tgt: "entryTargets mc g idxs i"
      by (simp add: entryTargets_def il ol mc_eq)
    from Suc.prems oi mcOut True obtain amount where am: "index amounts i = Inr amount"
      and rest: "rechargeEntries cfg lib txn mc g addrs idxs amounts (Suc i) n
                   (acc + mulExchangeRate lib amount) = Inr r"
      by (auto simp: orErr_def Let_def split: sum.splits if_splits error.splits)
    from am have "amount = amounts ! i"
      by (auto simp: index_def split: if_splits)
    with Suc.IH [OF rest] tgt show ?thesis
      by (simp add: expectedBetween_step [of i "Suc (i + n)"] add.assoc)
  next
    case False
    then have tgt: "\<not> entryTargets mc g idxs i"
      by (simp add: entryTargets_def mc_eq)
    from Suc.prems oi mcOut False
    have rest: "rechargeEntries cfg lib txn mc g addrs idxs amounts (Suc i) n acc = Inr r"
      by simp
    from Suc.IH [OF rest] tgt show ?thesis
      by (simp add: expectedBetween_step [of i "Suc (i + n)"])
  qed
qed

lemma recharge_totals_as_words:
  assumes "CheckRechargeToSideChainTransaction cfg lib ledger txn = Inr ()"
  shows "\<exists>merkleProof mcBytes mc addrs idxs amounts g.
           Payload txn = PayloadRechargeToSideChain merkleProof mcBytes \<and>
           DeserializeElaTransaction lib mcBytes = Inr mc \<and>
           ela_Payload mc = ElaPayloadTransferCrossChainAsset addrs idxs amounts \<and>
           GetGenesisProgramHash lib (GetBlockHash ledger 0) = Inr g \<and>
           sum_list (map Value (Outputs txn)) = expectedTotal lib mc g addrs idxs amounts"
proof -
  from assms obtain merkleProof mcBytes
    where pl: "Payload txn = PayloadRechargeToSideChain merkleProof mcBytes"
    by (auto simp: CheckRechargeToSideChainTransaction_def split: Payload.splits)
  from assms pl obtain mc where mc: "DeserializeElaTransaction lib mcBytes = Inr mc"
    by (auto simp: CheckRechargeToSideChainTransaction_def orErr_def
        split: if_splits sum.splits error.splits)
  from assms pl mc obtain addrs idxs amounts
    where ep: "ela_Payload mc = ElaPayloadTransferCrossChainAsset addrs idxs amounts"
    by (auto simp: CheckRechargeToSideChainTransaction_def orErr_def
        split: if_splits sum.splits error.splits ElaPayload.splits)
  from assms pl mc ep obtain g
    where g: "GetGenesisProgramHash lib (GetBlockHash ledger 0) = Inr g"
    by (auto simp: CheckRechargeToSideChainTransaction_def orErr_def
        split: if_splits sum.splits error.splits)
  from assms pl mc ep g obtain ori tgt
    where ori: "rechargeEntries cfg lib txn mc g addrs idxs amounts 0 (length addrs) 0 = Inr ori"
      and tgt: "targetTotal (Outputs txn) 0 = Inr tgt" and eq: "tgt = ori"
    by (auto simp: CheckRechargeToSideChainTransaction_def orErr_def
        split: if_splits sum.splits error.splits)
  from rechargeEntries_sum [OF ori] targetTotal_sum [OF tgt] eq
  have "sum_list (map Value (Outputs txn)) = expectedTotal lib mc g addrs idxs amounts"
    by (simp add: expectedTotal_def)
  with pl mc ep g show ?thesis by blast
qed

lemma outputs_word_total: "sum_list (map Value (Outputs txn)) = word_of_int (outputTotal txn)"
  by (simp add: outputTotal_def sum_list_word_of_int [of "map Value _"] comp_def)

lemma expected_word_total:
  "expectedTotal lib mc g addrs idxs amounts
     = word_of_int (expectedTotalInt lib mc g addrs idxs amounts)"
  by (simp add: expectedTotal_def expectedBetween_def expectedTotalInt_def
      sum_list_word_of_int [of "map _ _"] comp_def)

text \<open>
  C4. The claim: \<^verbatim>\<open>CheckRechargeToSideChainTransaction\<close> succeeds only if the sum of all
  output values of the side-chain transaction is exactly equal to the expected total, the
  sum over the entries of the embedded payload whose main-chain output pays the genesis
  program hash of the entry's cross-chain amount converted at the exchange rate. As
  amended: it succeeds only if the two totals are equal modulo \<open>2 ^ 64\<close>, both being
  accumulated in wrapping \<^verbatim>\<open>int64\<close> arithmetic; they are exactly equal whenever both fit
  \<^verbatim>\<open>Fixed64\<close>.
\<close>

theorem recharge_total_matches:
  assumes "CheckRechargeToSideChainTransaction cfg lib ledger txn = Inr ()"
  shows "\<exists>merkleProof mcBytes mc addrs idxs amounts g.
           Payload txn = PayloadRechargeToSideChain merkleProof mcBytes \<and>
           DeserializeElaTransaction lib mcBytes = Inr mc \<and>
           ela_Payload mc = ElaPayloadTransferCrossChainAsset addrs idxs amounts \<and>
           GetGenesisProgramHash lib (GetBlockHash ledger 0) = Inr g \<and>
           outputTotal txn mod 2 ^ 64 = expectedTotalInt lib mc g addrs idxs amounts mod 2 ^ 64 \<and>
           (fitsFixed64 (outputTotal txn) \<and>
            fitsFixed64 (expectedTotalInt lib mc g addrs idxs amounts) \<longrightarrow>
            outputTotal txn = expectedTotalInt lib mc g addrs idxs amounts)"
proof -
  from recharge_totals_as_words [OF assms] obtain merkleProof mcBytes mc addrs idxs amounts g
    where pl: "Payload txn = PayloadRechargeToSideChain merkleProof mcBytes"
      and mc: "DeserializeElaTransaction lib mcBytes = Inr mc"
      and ep: "ela_Payload mc = ElaPayloadTransferCrossChainAsset addrs idxs amounts"
      and g: "GetGenesisProgramHash lib (GetBlockHash ledger 0) = Inr g"
      and eq: "sum_list (map Value (Outputs txn)) = expectedTotal lib mc g addrs idxs amounts"
    by blast
  let ?e = "expectedTotalInt lib mc g addrs idxs amounts"
  from eq have words: "(word_of_int (outputTotal txn) :: 64 word) = word_of_int ?e"
    by (simp add: outputs_word_total expected_word_total)
  then have modular: "outputTotal txn mod 2 ^ 64 = ?e mod 2 ^ 64"
    by (simp add: word_of_int_eq_iff take_bit_eq_mod)
  have exact: "outputTotal txn = ?e" if "fitsFixed64 (outputTotal txn)" and "fitsFixed64 ?e"
  proof -
    from words have "sint (word_of_int (outputTotal txn) :: 64 word) = sint (word_of_int ?e :: 64 word)"
      by simp
    with that show ?thesis
      by (simp add: sint_word_of_int_fits)
  qed
  from pl mc ep g modular exact show ?thesis
    by blast
qed

theorem recharge_total_matches_witness:
  "CheckRechargeToSideChainTransaction cfg0 lib0 ledger0 txRecharge = Inr () \<and>
   outputTotal txRecharge = 500 \<and>
   expectedTotalInt lib0 mc0 (0x4B, 1) [''A''] [0] [500] = 500"
proof -
  have ok: "CheckRechargeToSideChainTransaction cfg0 lib0 ledger0 txRecharge = Inr ()"
    by (simp add: CheckRechargeToSideChainTransaction_def orErr_def index_def demo_defs
        txRecharge_def)
  have out: "outputTotal txRecharge = 500"
    by (simp add: outputTotal_def txRecharge_def)
  from recharge_total_matches [OF ok]
  have "fitsFixed64 (outputTotal txRecharge) \<and>
        fitsFixed64 (expectedTotalInt lib0 mc0 (0x4B, 1) [''A''] [0] [500]) \<longrightarrow>
        outputTotal txRecharge = expectedTotalInt lib0 mc0 (0x4B, 1) [''A''] [0] [500]"
    by (simp add: lib0_def mc0_def txRecharge_def)
  moreover have "expectedTotalInt lib0 mc0 (0x4B, 1) [''A''] [0] [500] = 500"
    by (simp add: expectedTotalInt_def entryTargets_def lib0_def mc0_def)
  ultimately show ?thesis using ok out by (simp add: fitsFixed64_def)
qed

text \<open>The claim as stated fails where the output sum overflows: a recharge with the matching
  output of 500 and four more outputs of \<open>2 ^ 62\<close> passes the check, and both phases of the
  validator, with outputs that add up to \<open>500 + 2 ^ 64\<close> against an expected total of 500.\<close>

theorem recharge_overflow_counterexample:
  "CheckRechargeToSideChainTransaction cfg0 lib0 ledger0 txMint = Inr () \<and>
   CheckTransactionSanity cfg0 lib0 ledger0 txMint = Inr Success \<and>
   CheckTransactionContext cfg0 lib0 ledger0 txMint = Inr Success \<and>
   outputTotal txMint = 500 + 2 ^ 64 \<and>
   expectedTotalInt lib0 mc0 (0x4B, 1) [''A''] [0] [500] = 500"
proof -
  have ok: "CheckRechargeToSideChainTransaction cfg0 lib0 ledger0 txMint = Inr ()"
    by (simp add: CheckRechargeToSideChainTransaction_def orErr_def index_def demo_defs
        txMint_def)
  have sanity: "CheckTransactionSanity cfg0 lib0 ledger0 txMint = Inr Success"
    by (simp add: sanity_defs tx_kinds demo_defs txMint_def)
  have fresh: "\<not> IsTxHashDuplicate ledger0 (Hash lib0 txMint)"
    by (simp add: ledger0_def)
  have kind: "\<not> IsCoinBaseTx txMint" "IsRechargeToSideChainTx txMint"
    by (simp_all add: tx_kinds txMint_def)
  have signed: "CheckTransactionSignature ledger0 txMint = Inr ()"
    by (simp add: CheckTransactionSignature_def ledger0_def)
  have "CheckTransactionContext cfg0 lib0 ledger0 txMint = Inr Success"
    by (simp add: CheckTransactionContext_def guard_def fresh kind signed ok)
  moreover have "outputTotal txMint = 500 + 2 ^ 64"
    by (simp add: outputTotal_def txMint_def elaOut_def)
  moreover have "expectedTotalInt lib0 mc0 (0x4B, 1) [''A''] [0] [500] = 500"
    by (simp add: expectedTotalInt_def entryTargets_def lib0_def mc0_def)
  ultimately show ?thesis using ok sanity by simp
qed

section \<open>Properties of the staged cache\<close>










end
